theory Spec2Isabelle
  imports Complex_Main "HOL-Library.Sublist"
begin

section \<open>Python text operations used by the widget\<close>

text \<open>
  The widget of \<^verbatim>\<open>z-system-information-widget.py\<close> works on Python \<^verbatim>\<open>str\<close> values.
  They are modelled as \<^typ>\<open>string\<close>; the case conversions and the whitespace class are
  the ones Python applies to ASCII text, which is what the environment variables, the
  files under \<^verbatim>\<open>/proc\<close> and the scraped commands deliver.

  User-visible messages go through \<^verbatim>\<open>_ = gettext.gettext\<close>. The catalogue is not part
  of the program, so the translation is a parameter \<open>tr\<close> of every function that calls
  \<^verbatim>\<open>_(...)\<close>; an untranslated session is \<open>tr = (\<lambda>s. s)\<close>.
\<close>

definition lower_ch :: "char \<Rightarrow> char" where
  "lower_ch c = (let n = (of_char c :: nat) in if 65 \<le> n \<and> n \<le> 90 then char_of (n + 32) else c)"

definition upper_ch :: "char \<Rightarrow> char" where
  "upper_ch c = (let n = (of_char c :: nat) in if 97 \<le> n \<and> n \<le> 122 then char_of (n - 32) else c)"

text \<open>\<^verbatim>\<open>s.lower()\<close>\<close>

definition lower :: "string \<Rightarrow> string" where
  "lower s = map lower_ch s"

text \<open>\<^verbatim>\<open>s.capitalize()\<close>: the first character upper-cased, all the others lower-cased.\<close>

fun capitalize :: "string \<Rightarrow> string" where
  "capitalize [] = []"
| "capitalize (c # cs) = upper_ch c # map lower_ch cs"

text \<open>\<^verbatim>\<open>os.environ\<close> is a dictionary; \<^verbatim>\<open>os.environ.get(k, d)\<close> is a lookup with default.\<close>

type_synonym environ = "string \<rightharpoonup> string"

definition environ_get :: "environ \<Rightarrow> string \<Rightarrow> string \<Rightarrow> string" where
  "environ_get env k d = (case env k of None \<Rightarrow> d | Some v \<Rightarrow> v)"

text \<open>
  A dictionary literal keeps its insertion order, so it is an association list;
  \<^verbatim>\<open>d.get(k, default)\<close> is \<open>dict_get\<close>.
\<close>

definition dict_get :: "(string \<times> string) list \<Rightarrow> string \<Rightarrow> string \<Rightarrow> string" where
  "dict_get d k dflt = (case map_of d k of None \<Rightarrow> dflt | Some v \<Rightarrow> v)"

section \<open>Desktop environment detection\<close>

definition de_mapping :: "(string \<times> string) list" where
  "de_mapping =
    [(''gnome'', ''GNOME''),
     (''kde'', ''KDE''),
     (''xfce'', ''Xfce''),
     (''mate'', ''MATE''),
     (''cinnamon'', ''Cinnamon''),
     (''lxde'', ''LXDE''),
     (''lxqt'', ''LXQt''),
     (''pantheon'', ''Pantheon''),
     (''budgie'', ''Budgie''),
     (''deepin'', ''Deepin''),
     (''unity'', ''Unity''),
     (''i3'', ''i3''),
     (''sway'', ''Sway''),
     (''awesome'', ''Awesome''),
     (''openbox'', ''Openbox''),
     (''fluxbox'', ''Fluxbox''),
     (''bspwm'', ''bspwm''),
     (''dwm'', ''dwm''),
     (''qtile'', ''Qtile''),
     (''herbstluftwm'', ''herbstluftwm'')]"

text \<open>
  The body of the \<^verbatim>\<open>for env_var in [...]\<close> loop of \<^verbatim>\<open>get_desktop_environment\<close>,
  over the variables still to be tried; falling out of the loop returns \<^verbatim>\<open>_("Unknown")\<close>.
\<close>

fun de_loop :: "(string \<Rightarrow> string) \<Rightarrow> environ \<Rightarrow> string list \<Rightarrow> string" where
  "de_loop tr env [] = tr ''Unknown''"
| "de_loop tr env (env_var # rest) =
     (let de = lower (environ_get env env_var '''')
      in if de \<noteq> [] then dict_get de_mapping de (capitalize de)
         else de_loop tr env rest)"

definition de_env_vars :: "string list" where
  "de_env_vars = [''XDG_CURRENT_DESKTOP'', ''DESKTOP_SESSION'', ''XDG_SESSION_DESKTOP'']"

definition get_desktop_environment :: "(string \<Rightarrow> string) \<Rightarrow> environ \<Rightarrow> string" where
  "get_desktop_environment tr env = de_loop tr env de_env_vars"

text \<open>
  The specification's reading of the same function: the value of the first of the three
  variables that is set to a non-empty string, then the table keyed on the lower-cased
  value, then the lower-cased value with its first character capitalised.
\<close>

definition first_nonempty_value :: "environ \<Rightarrow> string list \<Rightarrow> string option" where
  "first_nonempty_value env vars =
     find (\<lambda>v. v \<noteq> []) (map (\<lambda>k. case env k of None \<Rightarrow> [] | Some v \<Rightarrow> v) vars)"

fun capitalize_first :: "string \<Rightarrow> string" where
  "capitalize_first [] = []"
| "capitalize_first (c # cs) = upper_ch c # cs"

definition de_display_name :: "string \<Rightarrow> string" where
  "de_display_name v =
     (case map_of de_mapping (lower v) of
        Some name \<Rightarrow> name
      | None \<Rightarrow> capitalize_first (lower v))"

definition get_desktop_environment_spec :: "(string \<Rightarrow> string) \<Rightarrow> environ \<Rightarrow> string" where
  "get_desktop_environment_spec tr env =
     (case first_nonempty_value env
             [''XDG_CURRENT_DESKTOP'', ''DESKTOP_SESSION'', ''XDG_SESSION_DESKTOP''] of
        None \<Rightarrow> tr ''Unknown''
      | Some v \<Rightarrow> de_display_name v)"


section \<open>Cleaning the output of fastfetch\<close>

text \<open>
  \<^verbatim>\<open>clean_fastfetch_output\<close> applies two regular expressions with \<^verbatim>\<open>re.sub(..., '')\<close>.
  Every alternative of both has the shape \<^verbatim>\<open>\x1B\[ P* F\<close> for two character classes
  \<open>P\<close> and \<open>F\<close>, so a pattern is a list of such alternatives, tried in order.
\<close>

datatype csi_alt = CSI string string

type_synonym regex = "csi_alt list"

definition ESC :: char where
  "ESC = CHR 0x1B"

text \<open>
  \<^verbatim>\<open>P*F\<close> at the start of a string: the star is greedy and backtracks, so the match
  takes as many characters of \<open>P\<close> as still leave a character of \<open>F\<close> behind them.
  The result is the text after the match.
\<close>

fun match_body :: "string \<Rightarrow> string \<Rightarrow> string \<Rightarrow> string option" where
  "match_body P F [] = None"
| "match_body P F (c # cs) =
     (if c \<in> set P then
        (case match_body P F cs of
           Some rest \<Rightarrow> Some rest
         | None \<Rightarrow> if c \<in> set F then Some cs else None)
      else if c \<in> set F then Some cs else None)"

fun match_alt :: "csi_alt \<Rightarrow> string \<Rightarrow> string option" where
  "match_alt (CSI P F) (e # b # rest) =
     (if e = ESC \<and> b = CHR ''['' then match_body P F rest else None)"
| "match_alt (CSI P F) _ = None"

fun match_regex :: "regex \<Rightarrow> string \<Rightarrow> string option" where
  "match_regex [] s = None"
| "match_regex (a # alts) s =
     (case match_alt a s of Some rest \<Rightarrow> Some rest | None \<Rightarrow> match_regex alts s)"

lemma match_body_suffix:
  "match_body P F s = Some rest \<Longrightarrow> \<exists>pre. pre \<noteq> [] \<and> s = pre @ rest"
proof (induction s arbitrary: rest)
  case Nil
  then show ?case by simp
next
  case (Cons c cs)
  show ?case
  proof (cases "match_body P F cs")
    case None
    with Cons.prems have "rest = cs" by (auto split: if_splits)
    then have "[c] \<noteq> [] \<and> c # cs = [c] @ rest" by simp
    then show ?thesis by blast
  next
    case (Some r)
    from Cons.IH [OF Some] obtain pre where pre: "cs = pre @ r" by blast
    show ?thesis
    proof (cases "c \<in> set P")
      case True
      with Cons.prems Some have "rest = r" by simp
      with pre have "c # pre \<noteq> [] \<and> c # cs = (c # pre) @ rest" by simp
      then show ?thesis by blast
    next
      case False
      with Cons.prems have "rest = cs" by (auto split: if_splits)
      then have "[c] \<noteq> [] \<and> c # cs = [c] @ rest" by simp
      then show ?thesis by blast
    qed
  qed
qed

lemma match_alt_suffix:
  "match_alt a s = Some rest \<Longrightarrow> \<exists>pre. pre \<noteq> [] \<and> s = pre @ rest"
proof (induction a s rule: match_alt.induct)
  case (1 P F e b rest')
  then have "match_body P F rest' = Some rest" by (auto split: if_splits)
  then obtain pre where "rest' = pre @ rest" by (blast dest: match_body_suffix)
  then have "e # b # pre \<noteq> [] \<and> e # b # rest' = (e # b # pre) @ rest" by simp
  then show ?case by blast
qed simp_all

lemma match_regex_suffix:
  "match_regex r s = Some rest \<Longrightarrow> \<exists>pre. pre \<noteq> [] \<and> s = pre @ rest"
  by (induction r) (auto split: option.splits dest: match_alt_suffix)

lemma match_regex_shorter: "match_regex r s = Some rest \<Longrightarrow> length rest < length s"
  by (drule match_regex_suffix) auto

text \<open>
  \<^verbatim>\<open>pattern.sub('', text)\<close>: scan from the left; where the pattern matches, drop the
  match and go on behind it; elsewhere keep the character.
\<close>

function re_sub_empty :: "regex \<Rightarrow> string \<Rightarrow> string" where
  "re_sub_empty r [] = []"
| "re_sub_empty r (c # cs) =
     (case match_regex r (c # cs) of
        Some rest \<Rightarrow> re_sub_empty r rest
      | None \<Rightarrow> c # re_sub_empty r cs)"
  by pat_completeness auto
termination
  by (relation "measure (\<lambda>(r, s). length s)")
     (auto dest: match_regex_shorter)

definition cursor_codes :: regex where
  "cursor_codes = [CSI ''0123456789'' ''ABCD'', CSI ''0123456789'' ''G'', CSI ''0123456789'' ''C'']"

definition color_codes :: regex where
  "color_codes = [CSI ''0123456789;'' ''m'']"

definition clean_fastfetch_output :: "string \<Rightarrow> string" where
  "clean_fastfetch_output text0 =
     (let text1 = re_sub_empty cursor_codes text0;
          text2 = re_sub_empty color_codes text1
      in text2)"








section \<open>External commands\<close>

text \<open>
  \<^verbatim>\<open>subprocess.run(argv, capture_output=True, text=True, timeout=t)\<close> either completes
  with a return code and the captured standard output, or raises. The widget's handlers
  tell \<^verbatim>\<open>subprocess.TimeoutExpired\<close> (the \<^verbatim>\<open>SubprocessError\<close> that \<^verbatim>\<open>run\<close> raises without
  \<^verbatim>\<open>check\<close>), \<^verbatim>\<open>FileNotFoundError\<close> and every other exception apart; the last carries
  its \<^verbatim>\<open>str(e)\<close>. The host answers each command line: a \<open>runner\<close>.
\<close>

datatype exn = TimeoutExpired | FileNotFoundError | OtherException string

datatype proc_result = Completed int string | Raises exn

type_synonym runner = "string list \<Rightarrow> proc_result"

text \<open>
  \<^verbatim>\<open>template.format(arg)\<close> for a template with one \<^verbatim>\<open>{}\<close> field and no other brace,
  as the widget's own \<^verbatim>\<open>"Error running fastfetch: {}"\<close> is: the field is replaced by the
  argument. A translated template of another shape (numbered fields, doubled or stray
  braces) is outside this function, and what is proved below about the formatted
  message asks for this shape.
\<close>

fun str_format1 :: "string \<Rightarrow> string \<Rightarrow> string" where
  "str_format1 (c # d # rest) a =
     (if c = CHR ''{'' \<and> d = CHR ''}'' then a @ rest else c # str_format1 (d # rest) a)"
| "str_format1 s a = s"

section \<open>The fastfetch view\<close>

text \<open>
  The part of the widget object that the fastfetch view reads and writes. An attribute
  that is assigned only on some paths is an option: \<open>None\<close> is
  \<^verbatim>\<open>not hasattr(self, ...)\<close>. \<open>content_stack\<close> lists the named children of the
  \<^verbatim>\<open>Gtk.Stack\<close>; \<open>terminal_child\<close> is the command line running in the VTE terminal.
\<close>

datatype page = RowsList | TerminalView | TextView bool

record widget =
  current_view :: string
  toggle_label :: string
  visible_child :: string
  content_stack :: "(string \<times> page) list"
  terminal_available :: "bool option"
  terminal_child :: "string list option"
  fastfetch_buffer :: "string option"

text \<open>
  What the host's VTE binding does: whether a \<^verbatim>\<open>Vte\<close> module was imported, whether the
  terminal set-up of \<^verbatim>\<open>setup_fastfetch_view\<close> raises (it can only do so before the page
  is added to the stack), which spawn methods exist, and whether the chosen spawn call
  (or the \<^verbatim>\<open>reset\<close> before it) raises.
\<close>

record vte_host =
  VTE_AVAILABLE :: bool
  terminal_init :: "exn option"
  has_spawn_launcher :: bool
  has_spawn_sync :: bool
  has_fork_command_full :: bool
  spawn_call :: "exn option"

definition setup_fastfetch_text_fallback :: "widget \<Rightarrow> widget" where
  "setup_fastfetch_text_fallback w =
     w\<lparr>fastfetch_buffer := Some [],
       content_stack := content_stack w @ [(''fastfetch'', TextView False)]\<rparr>"

definition setup_fastfetch_view :: "vte_host \<Rightarrow> widget \<Rightarrow> widget" where
  "setup_fastfetch_view h w =
     (if \<not> VTE_AVAILABLE h then
        setup_fastfetch_text_fallback (w\<lparr>terminal_available := Some False\<rparr>)
      else
        (case terminal_init h of
           None \<Rightarrow>
             w\<lparr>content_stack := content_stack w @ [(''fastfetch'', TerminalView)],
               terminal_available := Some True\<rparr>
         | Some e \<Rightarrow>
             setup_fastfetch_text_fallback (w\<lparr>terminal_available := Some False\<rparr>)))"

definition setup_row_view :: "widget \<Rightarrow> widget" where
  "setup_row_view w = w\<lparr>content_stack := content_stack w @ [(''rows'', RowsList)]\<rparr>"

text \<open>
  \<^verbatim>\<open>__init__\<close> as far as the two views go: \<^verbatim>\<open>setup_ui\<close> builds the stack, then the rows
  page is shown. (\<^verbatim>\<open>load_system_info\<close>, which fills the rows, is modelled further down.)
\<close>

definition widget_init :: "(string \<Rightarrow> string) \<Rightarrow> vte_host \<Rightarrow> widget" where
  "widget_init tr h =
     (let w0 = \<lparr>current_view = ''rows'', toggle_label = tr ''Fastfetch View'',
                 visible_child = [], content_stack = [], terminal_available = None,
                 terminal_child = None, fastfetch_buffer = None\<rparr>;
          w1 = setup_row_view w0;
          w2 = setup_fastfetch_view h w1
      in w2\<lparr>visible_child := ''rows''\<rparr>)"

definition update_fastfetch_text :: "widget \<Rightarrow> string \<Rightarrow> widget" where
  "update_fastfetch_text w output =
     (if fastfetch_buffer w \<noteq> None then w\<lparr>fastfetch_buffer := Some output\<rparr> else w)"

text \<open>The handlers of \<^verbatim>\<open>run_fastfetch\<close>, in the order of the \<^verbatim>\<open>except\<close> clauses.\<close>

fun fastfetch_error :: "(string \<Rightarrow> string) \<Rightarrow> exn \<Rightarrow> string" where
  "fastfetch_error tr TimeoutExpired = tr ''Fastfetch command timed out''"
| "fastfetch_error tr FileNotFoundError = tr ''Fastfetch is not installed on this system''"
| "fastfetch_error tr (OtherException msg) = str_format1 (tr ''Error running fastfetch: {}'') msg"

definition run_fastfetch :: "(string \<Rightarrow> string) \<Rightarrow> runner \<Rightarrow> string" where
  "run_fastfetch tr run =
     (case run [''fastfetch'', ''--color-output'', ''never''] of
        Raises e \<Rightarrow> fastfetch_error tr e
      | Completed returncode stdout \<Rightarrow>
          if returncode = 0 then stdout
          else
            (case run [''fastfetch''] of
               Raises e \<Rightarrow> fastfetch_error tr e
             | Completed returncode2 stdout2 \<Rightarrow>
                 if returncode2 = 0 then clean_fastfetch_output stdout2
                 else tr ''Fastfetch command failed or not installed''))"

text \<open>
  \<^verbatim>\<open>load_fastfetch_text\<close> shows the loading text, starts the thread that runs
  \<^verbatim>\<open>run_fastfetch\<close>, and the thread queues \<^verbatim>\<open>update_fastfetch_text\<close> on the main loop.
  The model is the widget once that callback has run.
\<close>

definition load_fastfetch_text :: "(string \<Rightarrow> string) \<Rightarrow> runner \<Rightarrow> widget \<Rightarrow> widget" where
  "load_fastfetch_text tr run w =
     (let w1 = (if fastfetch_buffer w \<noteq> None
                then w\<lparr>fastfetch_buffer := Some (tr ''Loading fastfetch output...'')\<rparr>
                else w);
          output = run_fastfetch tr run
      in update_fastfetch_text w1 output)"

definition fastfetch_argv :: "string list" where
  "fastfetch_argv =
     [''fastfetch'', ''-l'', ''/usr/share/ascii/ascii_fast.txt'', ''--logo-color-1'',
      ''38;2;198;174;235'']"

text \<open>
  The \<^verbatim>\<open>try\<close> block of \<^verbatim>\<open>spawn_fastfetch_in_terminal\<close>: the widget with fastfetch
  running in the terminal, or the exception.
\<close>

definition try_spawn :: "vte_host \<Rightarrow> widget \<Rightarrow> exn + widget" where
  "try_spawn h w =
     (if has_spawn_launcher h \<or> has_spawn_sync h \<or> has_fork_command_full h then
        (case spawn_call h of
           Some e \<Rightarrow> Inl e
         | None \<Rightarrow> Inr (w\<lparr>terminal_child := Some fastfetch_argv\<rparr>))
      else Inl (OtherException ''No suitable VTE spawn method available''))"

definition spawn_fastfetch_in_terminal ::
  "(string \<Rightarrow> string) \<Rightarrow> vte_host \<Rightarrow> runner \<Rightarrow> widget \<Rightarrow> widget" where
  "spawn_fastfetch_in_terminal tr h run w =
     (case try_spawn h w of
        Inr w' \<Rightarrow> w'
      | Inl e \<Rightarrow> load_fastfetch_text tr run (w\<lparr>terminal_available := Some False\<rparr>))"

definition load_fastfetch_info ::
  "(string \<Rightarrow> string) \<Rightarrow> vte_host \<Rightarrow> runner \<Rightarrow> widget \<Rightarrow> widget" where
  "load_fastfetch_info tr h run w =
     (if terminal_available w = Some True then spawn_fastfetch_in_terminal tr h run w
      else load_fastfetch_text tr run w)"

definition on_view_toggle_clicked ::
  "(string \<Rightarrow> string) \<Rightarrow> vte_host \<Rightarrow> runner \<Rightarrow> widget \<Rightarrow> widget" where
  "on_view_toggle_clicked tr h run w =
     (if current_view w = ''rows'' then
        load_fastfetch_info tr h run
          (w\<lparr>current_view := ''fastfetch'', toggle_label := tr ''Row View'',
             visible_child := ''fastfetch''\<rparr>)
      else
        w\<lparr>current_view := ''rows'', toggle_label := tr ''Fastfetch View'',
          visible_child := ''rows''\<rparr>)"

text \<open>
  The fastfetch view is rendered when its page of the stack is the terminal with
  fastfetch running in it, or the text pane whose buffer holds the text to show.
\<close>

definition fastfetch_rendered :: "widget \<Rightarrow> bool" where
  "fastfetch_rendered w =
     (case map_of (content_stack w) ''fastfetch'' of
        Some TerminalView \<Rightarrow> terminal_child w = Some fastfetch_argv
      | Some (TextView editable) \<Rightarrow> fastfetch_buffer w \<noteq> None
      | _ \<Rightarrow> False)"


section \<open>More text operations\<close>

text \<open>\<^verbatim>\<open>str.isspace\<close> on ASCII: tab to carriage return, the four separators, the blank.\<close>

definition is_space :: "char \<Rightarrow> bool" where
  "is_space c = (let n = (of_char c :: nat) in 9 \<le> n \<and> n \<le> 13 \<or> 28 \<le> n \<and> n \<le> 32)"

text \<open>\<^verbatim>\<open>s.strip()\<close> and \<^verbatim>\<open>s.strip(chars)\<close>\<close>

definition strip :: "string \<Rightarrow> string" where
  "strip s = rev (dropWhile is_space (rev (dropWhile is_space s)))"

definition strip_chars :: "string \<Rightarrow> string \<Rightarrow> string" where
  "strip_chars chars s =
     rev (dropWhile (\<lambda>c. c \<in> set chars) (rev (dropWhile (\<lambda>c. c \<in> set chars) s)))"

text \<open>
  \<^verbatim>\<open>s.split(sep)\<close> for a separator of one character: the fields between the
  separators, empty fields included, never an empty list.
\<close>

fun split_on :: "char \<Rightarrow> string \<Rightarrow> string list" where
  "split_on sep [] = [[]]"
| "split_on sep (c # cs) =
     (if c = sep then [] # split_on sep cs
      else (case split_on sep cs of
              field # others \<Rightarrow> (c # field) # others
            | [] \<Rightarrow> [[c]]))"

text \<open>\<^verbatim>\<open>s.startswith(p)\<close>\<close>

definition startswith :: "string \<Rightarrow> string \<Rightarrow> bool" where
  "startswith s p = (take (length p) s = p)"

text \<open>\<^verbatim>\<open>xs[1]\<close>, which raises \<^verbatim>\<open>IndexError\<close> on a list shorter than two.\<close>

definition index1 :: "'a list \<Rightarrow> exn + 'a" where
  "index1 xs = (case xs of a # b # _ \<Rightarrow> Inr b | _ \<Rightarrow> Inl (OtherException ''list index out of range''))"

section \<open>Numbers\<close>

text \<open>
  \<^verbatim>\<open>str(n)\<close> of an integer, as the f-strings produce it.
\<close>

definition digit_char :: "nat \<Rightarrow> char" where
  "digit_char d = ''0123456789'' ! d"

function str_nat :: "nat \<Rightarrow> string" where
  "str_nat n = (if n < 10 then [digit_char n] else str_nat (n div 10) @ [digit_char (n mod 10)])"
  by pat_completeness auto
termination
  by (relation "measure id") auto

declare str_nat.simps [simp del]

definition str_int :: "int \<Rightarrow> string" where
  "str_int i = (if i < 0 then CHR ''-'' # str_nat (nat (- i)) else str_nat (nat i))"

text \<open>
  Python floats are modelled by the real numbers they denote. This is exact for the
  operations below as long as every value is an integer below \<open>2 ^ 53\<close> or such an
  integer divided by a power of two: a division by \<^verbatim>\<open>1024.0\<close>, \<^verbatim>\<open>//\<close> and \<^verbatim>\<open>%\<close> of
  non-negative floats by \<open>60\<close>, \<open>3600\<close>, \<open>86400\<close> are computed without rounding error.

  \<^verbatim>\<open>f"{x:.1f}"\<close> rounds the exact value of the float to one decimal, a tie to the even
  neighbour, and prints the integer part, a point and one digit.
\<close>

definition round_half_even :: "real \<Rightarrow> int" where
  "round_half_even x =
     (let f = \<lfloor>x\<rfloor>; d = x - of_int f
      in if d < 1 / 2 then f else if 1 / 2 < d then f + 1 else if even f then f else f + 1)"

definition format_1f :: "real \<Rightarrow> string" where
  "format_1f x =
     (let t = nat (round_half_even (\<bar>x\<bar> * 10))
      in (if x < 0 then ''-'' else []) @ str_nat (t div 10) @ ''.'' @ str_nat (t mod 10))"

text \<open>\<^verbatim>\<open>x // y\<close> and \<^verbatim>\<open>x % y\<close> on floats, for a positive \<open>y\<close>.\<close>

definition floordiv :: "real \<Rightarrow> real \<Rightarrow> real" where
  "floordiv x y = of_int \<lfloor>x / y\<rfloor>"

definition fmod :: "real \<Rightarrow> real \<Rightarrow> real" where
  "fmod x y = x - of_int \<lfloor>x / y\<rfloor> * y"

section \<open>Byte sizes\<close>

text \<open>
  The \<^verbatim>\<open>for unit in [...]\<close> loop of \<^verbatim>\<open>format_bytes\<close> over the units still to be
  tried; after the last one the value is printed in \<^verbatim>\<open>PB\<close>.
\<close>

fun format_bytes_loop :: "real \<Rightarrow> string list \<Rightarrow> string" where
  "format_bytes_loop bytes_value [] = format_1f bytes_value @ '' PB''"
| "format_bytes_loop bytes_value (unit # units) =
     (if bytes_value < 1024 then format_1f bytes_value @ '' '' @ unit
      else format_bytes_loop (bytes_value / 1024) units)"

definition format_bytes :: "real \<Rightarrow> string" where
  "format_bytes bytes_value = format_bytes_loop bytes_value [''B'', ''KB'', ''MB'', ''GB'', ''TB'']"

section \<open>Processor name\<close>

text \<open>
  The body of the \<^verbatim>\<open>try\<close> of \<^verbatim>\<open>get_cpu_info\<close> over the lines that the file iterator
  yields: \<open>Inr (Some name)\<close> is the \<^verbatim>\<open>return\<close> inside the loop, \<open>Inr None\<close> the end of
  the file, \<open>Inl\<close> an exception.
\<close>

fun cpuinfo_loop :: "string list \<Rightarrow> exn + string option" where
  "cpuinfo_loop [] = Inr None"
| "cpuinfo_loop (line # rest) =
     (if startswith line ''model name'' then
        (case index1 (split_on CHR '':'' line) of
           Inl e \<Rightarrow> Inl e
         | Inr field \<Rightarrow> Inr (Some (strip field)))
      else cpuinfo_loop rest)"

text \<open>
  \<open>cpuinfo\<close> is what opening \<^verbatim>\<open>/proc/cpuinfo\<close> gives: the exception of \<^verbatim>\<open>open\<close>, or the
  lines. The bare \<^verbatim>\<open>except: pass\<close> leads every exception to the final
  \<^verbatim>\<open>return _("Unknown")\<close>.
\<close>

definition get_cpu_info :: "(string \<Rightarrow> string) \<Rightarrow> (exn + string list) \<Rightarrow> string" where
  "get_cpu_info tr cpuinfo =
     (case cpuinfo of
        Inl e \<Rightarrow> tr ''Unknown''
      | Inr lines \<Rightarrow>
          (case cpuinfo_loop lines of
             Inr (Some name) \<Rightarrow> name
           | Inr None \<Rightarrow> tr ''Unknown''
           | Inl e \<Rightarrow> tr ''Unknown''))"

section \<open>Uptime\<close>

text \<open>
  \<open>boot_time\<close> and \<open>time_now\<close> are the outcomes of \<^verbatim>\<open>psutil.boot_time()\<close> and
  \<^verbatim>\<open>time.time()\<close>; the bare \<^verbatim>\<open>except\<close> turns every exception into \<^verbatim>\<open>_("Unknown")\<close>.
  Both times are seconds since the epoch, floats of the same magnitude, so their
  difference is computed exactly; \<^verbatim>\<open>int(...)\<close> of the whole-number floats is \<open>\<lfloor>_\<rfloor>\<close>.
\<close>

definition get_uptime :: "(string \<Rightarrow> string) \<Rightarrow> (exn + real) \<Rightarrow> (exn + real) \<Rightarrow> string" where
  "get_uptime tr boot_time time_now =
     (case boot_time of
        Inl e \<Rightarrow> tr ''Unknown''
      | Inr uptime_seconds \<Rightarrow>
          (case time_now of
             Inl e \<Rightarrow> tr ''Unknown''
           | Inr now \<Rightarrow>
               (let uptime = now - uptime_seconds;
                    days = \<lfloor>floordiv uptime 86400\<rfloor>;
                    hours = \<lfloor>floordiv (fmod uptime 86400) 3600\<rfloor>;
                    minutes = \<lfloor>floordiv (fmod uptime 3600) 60\<rfloor>
                in if days > 0 then str_int days @ ''d '' @ str_int hours @ ''h '' @ str_int minutes @ ''m''
                   else if hours > 0 then str_int hours @ ''h '' @ str_int minutes @ ''m''
                   else str_int minutes @ ''m'')))"

section \<open>Window manager detection\<close>

text \<open>\<^verbatim>\<open>p in s\<close> for strings: \<open>p\<close> occurs in \<open>s\<close> as a substring.\<close>

fun contains :: "string \<Rightarrow> string \<Rightarrow> bool" where
  "contains [] p = (p = [])"
| "contains (c # cs) p = (startswith (c # cs) p \<or> contains cs p)"

text \<open>
  \<^verbatim>\<open>s.split()\<close>: the maximal stretches without whitespace; \<open>word\<close> is the stretch
  being read.
\<close>

fun split_ws_from :: "string \<Rightarrow> string \<Rightarrow> string list" where
  "split_ws_from word [] = (if word = [] then [] else [word])"
| "split_ws_from word (c # cs) =
     (if is_space c then (if word = [] then split_ws_from [] cs else word # split_ws_from [] cs)
      else split_ws_from (word @ [c]) cs)"

definition split_ws :: "string \<Rightarrow> string list" where
  "split_ws s = split_ws_from [] s"

text \<open>\<^verbatim>\<open>xs[-1]\<close>, which raises \<^verbatim>\<open>IndexError\<close> on an empty list.\<close>

definition last_item :: "'a list \<Rightarrow> exn + 'a" where
  "last_item xs = (if xs = [] then Inl (OtherException ''list index out of range'') else Inr (last xs))"

text \<open>\<^verbatim>\<open>os.path.basename(p)\<close>: what follows the last \<^verbatim>\<open>/\<close>.\<close>

definition basename :: "string \<Rightarrow> string" where
  "basename p = rev (takeWhile (\<lambda>c. c \<noteq> CHR ''/'') (rev p))"

definition wm_mapping :: "(string \<times> string) list" where
  "wm_mapping =
    [(''mutter'', ''Mutter''),
     (''kwin_x11'', ''KWin''),
     (''kwin_wayland'', ''KWin''),
     (''kwin'', ''KWin''),
     (''xfwm4'', ''Xfwm4''),
     (''openbox'', ''Openbox''),
     (''i3'', ''i3''),
     (''sway'', ''Sway''),
     (''awesome'', ''Awesome''),
     (''dwm'', ''DWM''),
     (''bspwm'', ''bspwm''),
     (''qtile'', ''Qtile''),
     (''herbstluftwm'', ''herbstluftwm''),
     (''fluxbox'', ''Fluxbox''),
     (''marco'', ''Marco''),
     (''metacity'', ''Metacity''),
     (''compiz'', ''Compiz''),
     (''enlightenment'', ''Enlightenment''),
     (''cwm'', ''CWM''),
     (''jwm'', ''JWM'')]"

text \<open>
  The loop \<^verbatim>\<open>for wm_proc, wm_name in wm_mapping.items()\<close>, in the table's order.
\<close>

fun wm_scan :: "(string \<times> string) list \<Rightarrow> string \<Rightarrow> string option" where
  "wm_scan [] stdout = None"
| "wm_scan ((wm_proc, wm_name) # rest) stdout =
     (if contains stdout wm_proc then Some wm_name else wm_scan rest stdout)"

text \<open>
  What \<^verbatim>\<open>except (subprocess.SubprocessError, FileNotFoundError)\<close> catches. Any other
  exception of \<^verbatim>\<open>subprocess.run\<close> (a \<^verbatim>\<open>PermissionError\<close>, a \<^verbatim>\<open>UnicodeDecodeError\<close> of
  the captured output) leaves the function.
\<close>

fun caught :: "exn \<Rightarrow> bool" where
  "caught TimeoutExpired = True"
| "caught FileNotFoundError = True"
| "caught (OtherException msg) = False"

text \<open>
  The two \<^verbatim>\<open>try\<close> blocks of \<^verbatim>\<open>get_window_manager\<close>. Each gives the command lines it
  ran, and \<open>Inr (Some name)\<close> for a \<^verbatim>\<open>return\<close> inside the block, \<open>Inr None\<close> when
  control goes on behind the block, \<open>Inl e\<close> for an exception that is not caught.
\<close>

definition ps_detect :: "runner \<Rightarrow> string list list \<times> (exn + string option)" where
  "ps_detect run =
     ([[''ps'', ''aux'']],
      case run [''ps'', ''aux''] of
        Raises e \<Rightarrow> if caught e then Inr None else Inl e
      | Completed returncode stdout \<Rightarrow>
          if returncode = 0 then Inr (wm_scan wm_mapping stdout) else Inr None)"

definition xprop_root :: "string list" where
  "xprop_root = [''xprop'', ''-root'', ''_NET_SUPPORTING_WM_CHECK'']"

definition xprop_id :: "string \<Rightarrow> string list" where
  "xprop_id wm_id = [''xprop'', ''-id'', wm_id, ''_NET_WM_NAME'']"

definition x11_detect :: "environ \<Rightarrow> runner \<Rightarrow> string list list \<times> (exn + string option)" where
  "x11_detect env run =
     (if environ_get env ''DISPLAY'' [] \<noteq> [] then
        (case run xprop_root of
           Raises e \<Rightarrow> ([xprop_root], if caught e then Inr None else Inl e)
         | Completed returncode stdout \<Rightarrow>
             if returncode = 0 \<and> contains stdout ''window id'' then
               (case last_item (split_ws stdout) of
                  Inl e \<Rightarrow> ([xprop_root], Inl e)
                | Inr wm_id \<Rightarrow>
                    (case run (xprop_id wm_id) of
                       Raises e \<Rightarrow>
                         ([xprop_root, xprop_id wm_id], if caught e then Inr None else Inl e)
                     | Completed returncode2 stdout2 \<Rightarrow>
                         if returncode2 = 0 \<and> contains stdout2 ''='' then
                           (case index1 (split_on CHR ''='' stdout2) of
                              Inl e \<Rightarrow> ([xprop_root, xprop_id wm_id], Inl e)
                            | Inr field \<Rightarrow>
                                (let wm_name = strip_chars [CHR 0x22] (strip field)
                                 in if lower wm_name \<noteq> ''gnome shell''
                                    then ([xprop_root, xprop_id wm_id], Inr (Some wm_name))
                                    else ([xprop_root, xprop_id wm_id], Inr None)))
                         else ([xprop_root, xprop_id wm_id], Inr None)))
             else ([xprop_root], Inr None))
      else ([], Inr None))"

text \<open>
  \<^verbatim>\<open>get_window_manager\<close> with the command lines it ran, in order.
\<close>

definition get_window_manager ::
  "(string \<Rightarrow> string) \<Rightarrow> environ \<Rightarrow> runner \<Rightarrow> string list list \<times> (exn + string)" where
  "get_window_manager tr env run =
     (let wm = environ_get env ''WINDOW_MANAGER'' []
      in if wm \<noteq> [] then ([], Inr (basename wm))
         else
           (case ps_detect run of
              (cmds, Inl e) \<Rightarrow> (cmds, Inl e)
            | (cmds, Inr (Some wm_name)) \<Rightarrow> (cmds, Inr wm_name)
            | (cmds, Inr None) \<Rightarrow>
                (case x11_detect env run of
                   (cmds2, Inl e) \<Rightarrow> (cmds @ cmds2, Inl e)
                 | (cmds2, Inr (Some wm_name)) \<Rightarrow> (cmds @ cmds2, Inr wm_name)
                 | (cmds2, Inr None) \<Rightarrow> (cmds @ cmds2, Inr (tr ''Unknown'')))))"

text \<open>
  The specification's reading of \<^verbatim>\<open>get_window_manager\<close>: the base name of a non-empty
  \<^verbatim>\<open>WINDOW_MANAGER\<close>; else, when \<^verbatim>\<open>ps aux\<close> succeeds, the display name of the first key
  of the table that occurs in its output; else, when \<^verbatim>\<open>DISPLAY\<close> is set and both
  \<^verbatim>\<open>xprop\<close> queries succeed, the name that the second one reports, unless it is
  \<^verbatim>\<open>gnome shell\<close> in any capitalisation; else the message \<^verbatim>\<open>Unknown\<close>.
\<close>

definition ps_name :: "runner \<Rightarrow> string option" where
  "ps_name run =
     (case run [''ps'', ''aux''] of
        Completed rc out \<Rightarrow>
          if rc = 0 then map_option snd (find (\<lambda>entry. contains out (fst entry)) wm_mapping)
          else None
      | Raises e \<Rightarrow> None)"

definition xprop_name :: "environ \<Rightarrow> runner \<Rightarrow> string option" where
  "xprop_name env run =
     (case env ''DISPLAY'' of
        None \<Rightarrow> None
      | Some display \<Rightarrow>
          if display = [] then None
          else
            (case run [''xprop'', ''-root'', ''_NET_SUPPORTING_WM_CHECK''] of
               Raises e \<Rightarrow> None
             | Completed rc out \<Rightarrow>
                 if rc = 0 \<and> contains out ''window id'' then
                   (case run [''xprop'', ''-id'', last (split_ws out), ''_NET_WM_NAME''] of
                      Raises e \<Rightarrow> None
                    | Completed rc2 out2 \<Rightarrow>
                        if rc2 = 0 \<and> CHR ''='' \<in> set out2 then
                          Some (strip_chars [CHR 0x22]
                                 (strip (takeWhile (\<lambda>c. c \<noteq> CHR ''='')
                                           (tl (dropWhile (\<lambda>c. c \<noteq> CHR ''='') out2)))))
                        else None)
                 else None))"

definition get_window_manager_spec :: "(string \<Rightarrow> string) \<Rightarrow> environ \<Rightarrow> runner \<Rightarrow> string" where
  "get_window_manager_spec tr env run =
     (case env ''WINDOW_MANAGER'' of
        Some (c # cs) \<Rightarrow> basename (c # cs)
      | _ \<Rightarrow>
          (case ps_name run of
             Some name \<Rightarrow> name
           | None \<Rightarrow>
               (case xprop_name env run of
                  Some name \<Rightarrow> if lower name = ''gnome shell'' then tr ''Unknown'' else name
                | None \<Rightarrow> tr ''Unknown'')))"

definition raises_uncaught :: "proc_result \<Rightarrow> bool" where
  "raises_uncaught r = (case r of Raises e \<Rightarrow> \<not> caught e | Completed rc out \<Rightarrow> False)"


definition xprop_result :: "environ \<Rightarrow> runner \<Rightarrow> string option" where
  "xprop_result env run =
     (case xprop_name env run of
        Some name \<Rightarrow> if lower name = ''gnome shell'' then None else Some name
      | None \<Rightarrow> None)"


section \<open>The rows view\<close>

text \<open>
  What the host answers to the calls of \<^verbatim>\<open>load_info\<close> that leave the widget: the
  environment, the commands, \<^verbatim>\<open>distro\<close>, the files read, \<^verbatim>\<open>os.uname\<close>, \<^verbatim>\<open>psutil\<close> and the
  clock. Each call either returns or raises. \<open>gpu_info\<close> is the outcome of the call
  \<^verbatim>\<open>self.get_gpu_info()\<close> as a whole: the row list depends on it only through the text
  it returns or the exception it lets through.
\<close>

record usage =
  used :: nat
  total :: nat
  percent :: real

record host =
  environ :: environ
  subprocess_run :: runner
  distro_name :: "exn + string"
  distro_id :: "exn + string"
  distro_version :: "exn + string"
  os_release :: "exn + string list"
  version_file :: "exn + string"
  uname_release :: "exn + string"
  cpuinfo :: "exn + string list"
  cpu_count :: "exn + int option"
  gpu_info :: "exn + string"
  virtual_memory :: "exn + usage"
  disk_usage :: "exn + usage"
  boot_time :: "exn + real"
  time_now :: "exn + real"

text \<open>The getters with a bare \<^verbatim>\<open>except\<close>: they never raise.\<close>

definition get_kernel_info :: "(string \<Rightarrow> string) \<Rightarrow> (exn + string) \<Rightarrow> string" where
  "get_kernel_info tr uname = (case uname of Inl e \<Rightarrow> tr ''Unknown'' | Inr release \<Rightarrow> release)"

definition get_version_date :: "(exn + string) \<Rightarrow> string option" where
  "get_version_date file =
     (case file of
        Inl e \<Rightarrow> None
      | Inr text \<Rightarrow> (let content = strip text in if content \<noteq> [] then Some content else None))"

fun version_id_loop :: "string list \<Rightarrow> exn + string option" where
  "version_id_loop [] = Inr None"
| "version_id_loop (line # rest) =
     (if startswith line ''VERSION_ID='' then
        (case index1 (split_on CHR ''='' line) of
           Inl e \<Rightarrow> Inl e
         | Inr field \<Rightarrow> Inr (Some (strip_chars [CHR 0x22] (strip field))))
      else version_id_loop rest)"

definition get_version_id :: "(exn + string list) \<Rightarrow> string option" where
  "get_version_id file =
     (case file of
        Inl e \<Rightarrow> None
      | Inr lines \<Rightarrow> (case version_id_loop lines of Inr found \<Rightarrow> found | Inl e \<Rightarrow> None))"

definition get_session_type :: "(string \<Rightarrow> string) \<Rightarrow> environ \<Rightarrow> string" where
  "get_session_type tr env =
     (let session_type = lower (environ_get env ''XDG_SESSION_TYPE'' [])
      in if session_type \<noteq> [] then capitalize session_type else tr ''Unknown'')"

text \<open>A row of \<^verbatim>\<open>info_data\<close>: label, value, icon name.\<close>

type_synonym row = "string \<times> string \<times> string"

text \<open>
  \<^verbatim>\<open>os_name = distro.name(pretty=True)\<close>, and \<^verbatim>\<open>f"{distro.id()} {distro.version()}"\<close>
  when that is empty.
\<close>

definition os_name_of :: "host \<Rightarrow> exn + string" where
  "os_name_of h =
     (case distro_name h of
        Inl e \<Rightarrow> Inl e
      | Inr os_name \<Rightarrow>
          if os_name \<noteq> [] then Inr os_name
          else
            (case distro_id h of
               Inl e \<Rightarrow> Inl e
             | Inr ident \<Rightarrow>
                 (case distro_version h of
                    Inl e \<Rightarrow> Inl e
                  | Inr version \<Rightarrow> Inr (ident @ '' '' @ version))))"

text \<open>The f-strings of the memory and disk rows, and \<^verbatim>\<open>{cpu_count}\<close> (an int or \<^verbatim>\<open>None\<close>).\<close>

definition usage_text :: "usage \<Rightarrow> string" where
  "usage_text u =
     format_bytes (real (used u)) @ '' / '' @ format_bytes (real (total u)) @
     '' ('' @ format_1f (percent u) @ ''%)''"

definition str_optional_int :: "int option \<Rightarrow> string" where
  "str_optional_int n = (case n of None \<Rightarrow> ''None'' | Some i \<Rightarrow> str_int i)"

text \<open>
  The \<^verbatim>\<open>try\<close> block of \<^verbatim>\<open>load_info\<close>: \<open>info_data\<close> as it stands when the block is
  left, and the exception that left it, if any. The rows are appended in the order of
  the source; a call that raises ends the block with the rows appended so far.
\<close>

definition try_load :: "(string \<Rightarrow> string) \<Rightarrow> host \<Rightarrow> row list \<times> exn option" where
  "try_load tr h =
     (case os_name_of h of
        Inl e \<Rightarrow> ([], Some e)
      | Inr os_name \<Rightarrow>
     let info1 = [(tr ''Operating System'', os_name, ''computer'')];
         info2 = (case get_version_id (os_release h) of
                    None \<Rightarrow> info1
                  | Some version_id \<Rightarrow>
                      if version_id \<noteq> []
                      then info1 @ [(tr ''Version ID'', version_id, ''application-certificate'')]
                      else info1);
         info3 = (case get_version_date (version_file h) of
                    None \<Rightarrow> info2
                  | Some version_date \<Rightarrow>
                      if version_date \<noteq> []
                      then info2 @ [(tr ''Version Date'', version_date, ''preferences-system-time'')]
                      else info2);
         info4 = info3 @ [(tr ''Kernel'', get_kernel_info tr (uname_release h), ''application-x-firmware'')];
         info5 = info4 @ [(tr ''Session Type'', get_session_type tr (environ h), ''preferences-desktop-display'')];
         info6 = info5 @ [(tr ''Desktop Environment'', get_desktop_environment tr (environ h), ''preferences-desktop'')]
     in
     (case snd (get_window_manager tr (environ h) (subprocess_run h)) of
        Inl e \<Rightarrow> (info6, Some e)
      | Inr window_manager \<Rightarrow>
     let info7 = info6 @ [(tr ''Window Manager'', window_manager, ''preferences-desktop-wallpaper'')];
         cpu_info = get_cpu_info tr (cpuinfo h)
     in
     (case cpu_count h of
        Inl e \<Rightarrow> (info7, Some e)
      | Inr count \<Rightarrow>
     let cpu_text = cpu_info @ '' ('' @ str_optional_int count @ '' cores)'';
         info8 = info7 @ [(tr ''Processor'', cpu_text, ''applications-system'')]
     in
     (case gpu_info h of
        Inl e \<Rightarrow> (info8, Some e)
      | Inr gpu \<Rightarrow>
     let info9 = info8 @ [(tr ''Graphics'', gpu, ''video-display'')]
     in
     (case virtual_memory h of
        Inl e \<Rightarrow> (info9, Some e)
      | Inr memory \<Rightarrow>
     let info10 = info9 @ [(tr ''Memory'', usage_text memory, ''drive-harddisk'')]
     in
     (case disk_usage h of
        Inl e \<Rightarrow> (info10, Some e)
      | Inr disk \<Rightarrow>
     let info11 = info10 @ [(tr ''Disk Usage'', usage_text disk, ''drive-harddisk'')];
         info12 = info11 @ [(tr ''Uptime'', get_uptime tr (boot_time h) (time_now h), ''preferences-system-time'')]
     in (info12, None)))))))"

text \<open>
  The handler appends the error row. \<^verbatim>\<open>load_info\<close> then queues \<^verbatim>\<open>update_ui\<close>, which
  appends one list box row per entry; \<open>load_system_info\<close> is the list box once that
  callback has run.
\<close>

definition load_info :: "(string \<Rightarrow> string) \<Rightarrow> host \<Rightarrow> row list" where
  "load_info tr h =
     (case try_load tr h of
        (info_data, None) \<Rightarrow> info_data
      | (info_data, Some e) \<Rightarrow>
          info_data @ [(tr ''Error'', tr ''Failed to load system information'', ''dialog-error'')])"







section \<open>Properties\<close>

lemma lower_ch_idem: "lower_ch (lower_ch c) = lower_ch c"
  by (simp add: lower_ch_def Let_def)

lemma lower_idem: "lower (lower s) = lower s"
  by (simp add: lower_def lower_ch_idem)

lemma lower_Nil_iff: "lower s = [] \<longleftrightarrow> s = []"
  by (simp add: lower_def)

lemma capitalize_lower: "capitalize (lower s) = capitalize_first (lower s)"
  by (cases s) (simp_all add: lower_def lower_ch_idem)

lemma de_loop_first_nonempty:
  "de_loop tr env vars =
     (case first_nonempty_value env vars of
        None \<Rightarrow> tr ''Unknown''
      | Some v \<Rightarrow> de_display_name v)"
proof (induction vars)
  case Nil
  show ?case by (simp add: first_nonempty_value_def)
next
  case (Cons k ks)
  show ?case
  proof (cases "environ_get env k '''' = []")
    case True
    then have "(case env k of None \<Rightarrow> [] | Some v \<Rightarrow> v) = []"
      by (simp add: environ_get_def)
    with True Cons.IH show ?thesis
      by (simp add: first_nonempty_value_def lower_Nil_iff)
  next
    case False
    then have v: "(case env k of None \<Rightarrow> [] | Some v \<Rightarrow> v) = environ_get env k ''''"
      by (simp add: environ_get_def)
    from False have "lower (environ_get env k '''') \<noteq> []"
      by (simp add: lower_Nil_iff)
    with False v show ?thesis
      by (simp add: first_nonempty_value_def de_display_name_def dict_get_def
            capitalize_lower Let_def split: option.split)
  qed
qed

text \<open>
  C1. \<^verbatim>\<open>get_desktop_environment\<close> consults \<^verbatim>\<open>XDG_CURRENT_DESKTOP\<close>,
  \<^verbatim>\<open>DESKTOP_SESSION\<close>, \<^verbatim>\<open>XDG_SESSION_DESKTOP\<close> in that order. For the first of them
  whose value is non-empty it returns the display name that the fixed table gives for
  the lower-cased value, or, when the lower-cased value is not a key of the table, that
  value with only its first character capitalised. When none of the three has a
  non-empty value it returns the message \<^verbatim>\<open>Unknown\<close>.
\<close>

theorem get_desktop_environment_priority_table:
  "get_desktop_environment tr env = get_desktop_environment_spec tr env"
  by (simp add: get_desktop_environment_def get_desktop_environment_spec_def
        de_env_vars_def de_loop_first_nonempty)

lemma re_sub_empty_subseq: "subseq (re_sub_empty r s) s"
proof (induction r s rule: re_sub_empty.induct)
  case (1 r)
  show ?case by simp
next
  case (2 r c cs)
  show ?case
  proof (cases "match_regex r (c # cs)")
    case None
    with "2.IH"(1) show ?thesis by simp
  next
    case (Some rest)
    then obtain pre where "c # cs = pre @ rest" by (blast dest: match_regex_suffix)
    then have "subseq rest (c # cs)"
      by (simp add: list_emb_append2)
    with "2.IH"(2) [OF Some] Some show ?thesis
      by (auto intro: subseq_order.trans)
  qed
qed

lemma match_regex_no_ESC: "hd s \<noteq> ESC \<Longrightarrow> match_regex r s = None"
proof (induction r)
  case Nil
  show ?case by simp
next
  case (Cons a alts)
  have "match_alt a s = None"
    using Cons.prems by (cases "(a, s)" rule: match_alt.cases) auto
  with Cons show ?case by simp
qed

lemma re_sub_empty_no_ESC: "ESC \<notin> set s \<Longrightarrow> re_sub_empty r s = s"
  by (induction s) (auto simp: match_regex_no_ESC)

text \<open>
  C9. For every input string the output of \<^verbatim>\<open>clean_fastfetch_output\<close> is a subsequence
  of the input: the function only deletes characters, it neither inserts nor reorders
  them. For every input string without an ESC character (\<^verbatim>\<open>\x1B\<close>) it returns the
  input unchanged.
\<close>

theorem clean_fastfetch_output_only_deletes:
  "subseq (clean_fastfetch_output s) s \<and>
   (ESC \<notin> set s \<longrightarrow> clean_fastfetch_output s = s)"
proof
  have "subseq (re_sub_empty color_codes (re_sub_empty cursor_codes s)) (re_sub_empty cursor_codes s)"
    by (rule re_sub_empty_subseq)
  also have "subseq (re_sub_empty cursor_codes s) s"
    by (rule re_sub_empty_subseq)
  finally show "subseq (clean_fastfetch_output s) s"
    by (simp add: clean_fastfetch_output_def)
  show "ESC \<notin> set s \<longrightarrow> clean_fastfetch_output s = s"
    by (simp add: clean_fastfetch_output_def re_sub_empty_no_ESC)
qed

lemma update_fastfetch_text_buffer:
  "fastfetch_buffer w \<noteq> None \<Longrightarrow>
   fastfetch_buffer (update_fastfetch_text w output) = Some output"
  by (simp add: update_fastfetch_text_def)





lemma digits_no_final: "set ''0123456789;'' \<inter> set ''ABCDG'' = {}"
  by simp













theorem clean_fastfetch_output_only_deletes_witness:
  "ESC \<notin> set ''CPU: 8 cores [x86]'' \<and>
   subseq (clean_fastfetch_output ''CPU: 8 cores [x86]'') ''CPU: 8 cores [x86]'' \<and>
   clean_fastfetch_output ''CPU: 8 cores [x86]'' = ''CPU: 8 cores [x86]''"
  using clean_fastfetch_output_only_deletes [of "''CPU: 8 cores [x86]''"]
  by (simp add: ESC_def)

text \<open>
  What does hold of the two views: the stack gets exactly one page named
  \<^verbatim>\<open>fastfetch\<close>, the terminal exactly when a VTE binding was imported and the terminal
  set-up did not raise, the non-editable text pane otherwise; and only the text pane
  comes with a text buffer.
\<close>

lemma widget_init_fastfetch_page:
  "filter (\<lambda>p. fst p = ''fastfetch'') (content_stack (widget_init tr h)) =
     [(''fastfetch'',
       if VTE_AVAILABLE h \<and> terminal_init h = None then TerminalView else TextView False)]"
  by (simp add: widget_init_def setup_row_view_def setup_fastfetch_view_def
        setup_fastfetch_text_fallback_def Let_def split: option.split)

lemma widget_init_buffer:
  "fastfetch_buffer (widget_init tr h) =
     (if VTE_AVAILABLE h \<and> terminal_init h = None then None else Some [])"
  by (simp add: widget_init_def setup_row_view_def setup_fastfetch_view_def
        setup_fastfetch_text_fallback_def Let_def split: option.split)

lemma widget_init_terminal_available:
  "terminal_available (widget_init tr h) = Some (VTE_AVAILABLE h \<and> terminal_init h = None)"
  by (simp add: widget_init_def setup_row_view_def setup_fastfetch_view_def
        setup_fastfetch_text_fallback_def Let_def split: option.split)

text \<open>
  A failed spawn clears \<open>terminal_available\<close> and goes through the text path, as the
  handler announces. The text path writes to the buffer only if there is one, and
  nothing on this path creates it.
\<close>

lemma spawn_failure_text_path:
  "try_spawn h w = Inl e \<Longrightarrow>
   spawn_fastfetch_in_terminal tr h run w =
     load_fastfetch_text tr run (w\<lparr>terminal_available := Some False\<rparr>)"
  by (simp add: spawn_fastfetch_in_terminal_def)

lemma load_fastfetch_text_without_buffer:
  "fastfetch_buffer w = None \<Longrightarrow> load_fastfetch_text tr run w = w"
  by (simp add: load_fastfetch_text_def update_fastfetch_text_def)

lemma spawn_failure_not_rendered:
  assumes "VTE_AVAILABLE h" and "terminal_init h = None"
    and "try_spawn h (widget_init tr h) = Inl e"
  shows "\<not> fastfetch_rendered (on_view_toggle_clicked tr h run (widget_init tr h))"
proof -
  let ?w = "(widget_init tr h)\<lparr>current_view := ''fastfetch'', toggle_label := tr ''Row View'',
             visible_child := ''fastfetch''\<rparr>"
  have ta: "terminal_available ?w = Some True"
    using assms(1,2) by (simp add: widget_init_terminal_available)
  have sp: "try_spawn h ?w = Inl e"
    using assms(3) by (auto simp: try_spawn_def split: if_splits option.splits)
  have nb: "fastfetch_buffer (?w\<lparr>terminal_available := Some False\<rparr>) = None"
    using assms(1,2) by (simp add: widget_init_buffer)
  have cv: "current_view (widget_init tr h) = ''rows''"
    by (simp add: widget_init_def setup_row_view_def setup_fastfetch_view_def
          setup_fastfetch_text_fallback_def Let_def split: option.split)
  have "on_view_toggle_clicked tr h run (widget_init tr h) = ?w\<lparr>terminal_available := Some False\<rparr>"
    using ta cv
    by (simp add: on_view_toggle_clicked_def load_fastfetch_info_def
          spawn_failure_text_path [OF sp] load_fastfetch_text_without_buffer [OF nb])
  moreover have "terminal_child ?w = None"
    by (simp add: widget_init_def setup_row_view_def setup_fastfetch_view_def
          setup_fastfetch_text_fallback_def Let_def split: option.split)
  moreover have "map_of (content_stack ?w) ''fastfetch'' = Some TerminalView"
    using assms(1,2)
    by (simp add: widget_init_def setup_row_view_def setup_fastfetch_view_def Let_def)
  ultimately show ?thesis
    by (simp add: fastfetch_rendered_def)
qed

text \<open>
  C5. The claim: the \<^verbatim>\<open>fastfetch\<close> page holds either the VTE terminal or the plain text
  pane, and when spawning fastfetch in the terminal fails the output is loaded through
  the text path, so that the view is always rendered in the terminal or in the text
  pane. The code at a host whose VTE binding loads and whose terminal is created, but
  whose \<^verbatim>\<open>spawn_sync\<close> raises, with a fastfetch that would run fine: after the click on the
  toggle button \<open>terminal_available\<close> is cleared, but the page is still the terminal with
  nothing running in it, there is no text buffer, and the view is not rendered.
\<close>

theorem spawn_failure_leaves_fastfetch_view_empty:
  "terminal_available
     (on_view_toggle_clicked (\<lambda>s. s)
        \<lparr>VTE_AVAILABLE = True, terminal_init = None, has_spawn_launcher = False,
         has_spawn_sync = True, has_fork_command_full = True,
         spawn_call = Some (OtherException ''Failed to execute child process'')\<rparr>
        (\<lambda>argv. Completed 0 ''OS: Linux'')
        (widget_init (\<lambda>s. s)
           \<lparr>VTE_AVAILABLE = True, terminal_init = None, has_spawn_launcher = False,
            has_spawn_sync = True, has_fork_command_full = True,
            spawn_call = Some (OtherException ''Failed to execute child process'')\<rparr>))
     = Some False \<and>
   map_of (content_stack
     (on_view_toggle_clicked (\<lambda>s. s)
        \<lparr>VTE_AVAILABLE = True, terminal_init = None, has_spawn_launcher = False,
         has_spawn_sync = True, has_fork_command_full = True,
         spawn_call = Some (OtherException ''Failed to execute child process'')\<rparr>
        (\<lambda>argv. Completed 0 ''OS: Linux'')
        (widget_init (\<lambda>s. s)
           \<lparr>VTE_AVAILABLE = True, terminal_init = None, has_spawn_launcher = False,
            has_spawn_sync = True, has_fork_command_full = True,
            spawn_call = Some (OtherException ''Failed to execute child process'')\<rparr>)))
     ''fastfetch'' = Some TerminalView \<and>
   terminal_child
     (on_view_toggle_clicked (\<lambda>s. s)
        \<lparr>VTE_AVAILABLE = True, terminal_init = None, has_spawn_launcher = False,
         has_spawn_sync = True, has_fork_command_full = True,
         spawn_call = Some (OtherException ''Failed to execute child process'')\<rparr>
        (\<lambda>argv. Completed 0 ''OS: Linux'')
        (widget_init (\<lambda>s. s)
           \<lparr>VTE_AVAILABLE = True, terminal_init = None, has_spawn_launcher = False,
            has_spawn_sync = True, has_fork_command_full = True,
            spawn_call = Some (OtherException ''Failed to execute child process'')\<rparr>))
     = None \<and>
   fastfetch_buffer
     (on_view_toggle_clicked (\<lambda>s. s)
        \<lparr>VTE_AVAILABLE = True, terminal_init = None, has_spawn_launcher = False,
         has_spawn_sync = True, has_fork_command_full = True,
         spawn_call = Some (OtherException ''Failed to execute child process'')\<rparr>
        (\<lambda>argv. Completed 0 ''OS: Linux'')
        (widget_init (\<lambda>s. s)
           \<lparr>VTE_AVAILABLE = True, terminal_init = None, has_spawn_launcher = False,
            has_spawn_sync = True, has_fork_command_full = True,
            spawn_call = Some (OtherException ''Failed to execute child process'')\<rparr>))
     = None \<and>
   \<not> fastfetch_rendered
     (on_view_toggle_clicked (\<lambda>s. s)
        \<lparr>VTE_AVAILABLE = True, terminal_init = None, has_spawn_launcher = False,
         has_spawn_sync = True, has_fork_command_full = True,
         spawn_call = Some (OtherException ''Failed to execute child process'')\<rparr>
        (\<lambda>argv. Completed 0 ''OS: Linux'')
        (widget_init (\<lambda>s. s)
           \<lparr>VTE_AVAILABLE = True, terminal_init = None, has_spawn_launcher = False,
            has_spawn_sync = True, has_fork_command_full = True,
            spawn_call = Some (OtherException ''Failed to execute child process'')\<rparr>))"
  by (simp add: on_view_toggle_clicked_def load_fastfetch_info_def
        spawn_fastfetch_in_terminal_def try_spawn_def load_fastfetch_text_def
        update_fastfetch_text_def widget_init_def setup_row_view_def
        setup_fastfetch_view_def fastfetch_rendered_def Let_def)


lemma split_on_not_Nil: "split_on sep s \<noteq> []"
  by (induction s) (auto split: list.splits)


lemma split_on_fields:
  "split_on sep s =
     takeWhile (\<lambda>c. c \<noteq> sep) s #
       (case dropWhile (\<lambda>c. c \<noteq> sep) s of [] \<Rightarrow> [] | _ # r \<Rightarrow> split_on sep r)"
  using split_on_not_Nil by (induction s) (auto split: list.splits)

lemma index1_split:
  assumes "sep \<in> set s"
  shows "index1 (split_on sep s) = Inr (takeWhile (\<lambda>c. c \<noteq> sep) (tl (dropWhile (\<lambda>c. c \<noteq> sep) s)))"
proof -
  from assms obtain r where d: "dropWhile (\<lambda>c. c \<noteq> sep) s = sep # r"
    by (metis (mono_tags, lifting) dropWhile_eq_Nil_conv hd_dropWhile list.collapse)
  have "split_on sep s = takeWhile (\<lambda>c. c \<noteq> sep) s # split_on sep r"
    by (subst split_on_fields) (simp add: d)
  also have "split_on sep r = takeWhile (\<lambda>c. c \<noteq> sep) r #
       (case dropWhile (\<lambda>c. c \<noteq> sep) r of [] \<Rightarrow> [] | _ # r' \<Rightarrow> split_on sep r')"
    by (rule split_on_fields)
  finally show ?thesis by (simp add: index1_def d)
qed

lemma cpuinfo_loop_find:
  "cpuinfo_loop lines =
     (case find (\<lambda>l. startswith l ''model name'') lines of
        None \<Rightarrow> Inr None
      | Some l \<Rightarrow> (case index1 (split_on CHR '':'' l) of Inl e \<Rightarrow> Inl e | Inr f \<Rightarrow> Inr (Some (strip f))))"
  by (induction lines) auto

lemma cpuinfo_loop_no_model_name:
  "\<forall>l\<in>set lines. \<not> startswith l ''model name'' \<Longrightarrow> cpuinfo_loop lines = Inr None"
  by (induction lines) simp_all

text \<open>
  C7. \<^verbatim>\<open>get_cpu_info\<close> returns, for the first line of \<^verbatim>\<open>/proc/cpuinfo\<close> that starts
  with \<^verbatim>\<open>model name\<close>, the second colon-separated field of that line (the text
  after the first \<^verbatim>\<open>:\<close> up to the next one, or to the end of the line), stripped of
  surrounding whitespace. If the file cannot be opened, or no line starts with
  \<^verbatim>\<open>model name\<close>, it returns the message \<^verbatim>\<open>Unknown\<close>.
\<close>

theorem get_cpu_info_model_name:
  "get_cpu_info tr (Inl e) = tr ''Unknown'' \<and>
   ((\<forall>l\<in>set lines. \<not> startswith l ''model name'') \<longrightarrow>
      get_cpu_info tr (Inr lines) = tr ''Unknown'') \<and>
   (find (\<lambda>l. startswith l ''model name'') lines = Some line \<and> CHR '':'' \<in> set line \<longrightarrow>
      get_cpu_info tr (Inr lines) =
        strip (takeWhile (\<lambda>c. c \<noteq> CHR '':'') (tl (dropWhile (\<lambda>c. c \<noteq> CHR '':'') line))))"
proof (intro conjI impI)
  show "get_cpu_info tr (Inl e) = tr ''Unknown''"
    by (simp add: get_cpu_info_def)
next
  assume "\<forall>l\<in>set lines. \<not> startswith l ''model name''"
  then show "get_cpu_info tr (Inr lines) = tr ''Unknown''"
    by (simp add: get_cpu_info_def cpuinfo_loop_no_model_name)
next
  assume h: "find (\<lambda>l. startswith l ''model name'') lines = Some line \<and> CHR '':'' \<in> set line"
  then have "index1 (split_on CHR '':'' line) =
      Inr (takeWhile (\<lambda>c. c \<noteq> CHR '':'') (tl (dropWhile (\<lambda>c. c \<noteq> CHR '':'') line)))"
    by (simp add: index1_split)
  with h show "get_cpu_info tr (Inr lines) =
        strip (takeWhile (\<lambda>c. c \<noteq> CHR '':'') (tl (dropWhile (\<lambda>c. c \<noteq> CHR '':'') line)))"
    by (simp add: get_cpu_info_def cpuinfo_loop_find)
qed

lemma get_cpu_info_no_colon:
  "find (\<lambda>l. startswith l ''model name'') lines = Some line \<Longrightarrow> CHR '':'' \<notin> set line \<Longrightarrow>
   get_cpu_info tr (Inr lines) = tr ''Unknown''"
proof -
  assume f: "find (\<lambda>l. startswith l ''model name'') lines = Some line" and n: "CHR '':'' \<notin> set line"
  from n have "split_on CHR '':'' line = [line]"
    by (induction line) auto
  then have "index1 (split_on CHR '':'' line) = Inl (OtherException ''list index out of range'')"
    by (simp add: index1_def)
  with f show ?thesis by (simp add: get_cpu_info_def cpuinfo_loop_find)
qed

theorem get_cpu_info_model_name_witness:
  "get_cpu_info (\<lambda>s. s) (Inl FileNotFoundError) = ''Unknown'' \<and>
   get_cpu_info (\<lambda>s. s) (Inr [''processor'' @ [CHR 0x09] @ '': 0'' @ [CHR 0x0A]]) = ''Unknown'' \<and>
   get_cpu_info (\<lambda>s. s)
     (Inr [''processor'' @ [CHR 0x09] @ '': 0'' @ [CHR 0x0A],
           ''model name'' @ [CHR 0x09] @ '': AMD Ryzen 7: 8-Core'' @ [CHR 0x0A],
           ''model name'' @ [CHR 0x09] @ '': other'' @ [CHR 0x0A]])
     = ''AMD Ryzen 7''"
proof -
  have 1: "get_cpu_info (\<lambda>s. s) (Inr [''processor'' @ [CHR 0x09] @ '': 0'' @ [CHR 0x0A]]) = ''Unknown''"
    using get_cpu_info_model_name
      [where lines = "[''processor'' @ [CHR 0x09] @ '': 0'' @ [CHR 0x0A]]" and tr = "\<lambda>s. s"]
    by (simp add: startswith_def)
  have 2: "get_cpu_info (\<lambda>s. s)
     (Inr [''processor'' @ [CHR 0x09] @ '': 0'' @ [CHR 0x0A],
           ''model name'' @ [CHR 0x09] @ '': AMD Ryzen 7: 8-Core'' @ [CHR 0x0A],
           ''model name'' @ [CHR 0x09] @ '': other'' @ [CHR 0x0A]])
     = ''AMD Ryzen 7''"
    using get_cpu_info_model_name
      [where lines = "[''processor'' @ [CHR 0x09] @ '': 0'' @ [CHR 0x0A],
           ''model name'' @ [CHR 0x09] @ '': AMD Ryzen 7: 8-Core'' @ [CHR 0x0A],
           ''model name'' @ [CHR 0x09] @ '': other'' @ [CHR 0x0A]]"
        and line = "''model name'' @ [CHR 0x09] @ '': AMD Ryzen 7: 8-Core'' @ [CHR 0x0A]"
        and tr = "\<lambda>s. s"]
    by (simp add: startswith_def strip_def is_space_def)
  from get_cpu_info_model_name [where tr = "\<lambda>s. s" and e = FileNotFoundError] 1 2
  show ?thesis by blast
qed

lemma days_floor: "\<lfloor>floordiv u 86400\<rfloor> = \<lfloor>u\<rfloor> div 86400"
proof -
  have "\<lfloor>u / real_of_int 86400\<rfloor> = \<lfloor>u\<rfloor> div 86400"
    by (rule floor_divide_real_eq_div) simp
  then show ?thesis by (simp add: floordiv_def)
qed

lemma floor_fmod:
  assumes "0 < m"
  shows "\<lfloor>fmod u (real_of_int m)\<rfloor> = \<lfloor>u\<rfloor> mod m"
proof -
  have "\<lfloor>u / real_of_int m\<rfloor> = \<lfloor>u\<rfloor> div m"
    using assms by (intro floor_divide_real_eq_div) simp
  then have "fmod u (real_of_int m) = u - of_int (\<lfloor>u\<rfloor> div m * m)"
    by (simp add: fmod_def)
  then have "\<lfloor>fmod u (real_of_int m)\<rfloor> = \<lfloor>u\<rfloor> - \<lfloor>u\<rfloor> div m * m"
    by (simp only: floor_diff_of_int)
  then show ?thesis by (simp add: minus_div_mult_eq_mod)
qed

lemma floordiv_fmod:
  assumes "0 < m" "0 < d"
  shows "\<lfloor>floordiv (fmod u (real_of_int m)) (real_of_int d)\<rfloor> = (\<lfloor>u\<rfloor> mod m) div d"
proof -
  have "\<lfloor>fmod u (real_of_int m) / real_of_int d\<rfloor> = \<lfloor>fmod u (real_of_int m)\<rfloor> div d"
    using assms by (intro floor_divide_real_eq_div) simp
  then show ?thesis using assms by (simp add: floordiv_def floor_fmod)
qed

lemma hours_floor: "\<lfloor>floordiv (fmod u 86400) 3600\<rfloor> = (\<lfloor>u\<rfloor> mod 86400) div 3600"
  using floordiv_fmod [of 86400 3600 u] by simp

lemma minutes_floor: "\<lfloor>floordiv (fmod u 3600) 60\<rfloor> = (\<lfloor>u\<rfloor> mod 3600) div 60"
  using floordiv_fmod [of 3600 60 u] by simp

lemma seconds_split:
  fixes s :: int
  shows "s = 86400 * (s div 86400) + 3600 * ((s mod 86400) div 3600) + 60 * ((s mod 3600) div 60) + s mod 60"
proof -
  have a: "(s mod 86400) mod 3600 = s mod 3600"
    by (rule mod_mod_cancel) simp
  have b: "(s mod 3600) mod 60 = s mod 60"
    by (rule mod_mod_cancel) simp
  have "s = 86400 * (s div 86400) + s mod 86400" by simp
  also have "s mod 86400 = 3600 * ((s mod 86400) div 3600) + (s mod 86400) mod 3600" by simp
  also have "(s mod 86400) mod 3600 = 60 * ((s mod 3600) div 60) + s mod 60"
    unfolding a using b by (metis mult_div_mod_eq)
  finally show ?thesis by (simp add: add.assoc)
qed

lemma str_int_nonneg: "0 \<le> i \<Longrightarrow> str_int i = str_nat (nat i)"
  by (simp add: str_int_def)

lemma get_uptime_by_seconds:
  "get_uptime tr (Inr boot) (Inr now) =
     (let s = \<lfloor>now - boot\<rfloor>;
          days = s div 86400; hours = (s mod 86400) div 3600; minutes = (s mod 3600) div 60
      in if days > 0 then str_int days @ ''d '' @ str_int hours @ ''h '' @ str_int minutes @ ''m''
         else if hours > 0 then str_int hours @ ''h '' @ str_int minutes @ ''m''
         else str_int minutes @ ''m'')"
  by (simp add: get_uptime_def Let_def days_floor hours_floor minutes_floor)

text \<open>
  C10. For every boot time not later than the current time, \<^verbatim>\<open>get_uptime\<close> returns
  \<^verbatim>\<open>Dd Hh Mm\<close> when the whole-day count \<open>D\<close> is at least 1, \<^verbatim>\<open>Hh Mm\<close> when \<open>D = 0\<close>
  and the hour count \<open>H\<close> is at least 1, and \<^verbatim>\<open>Mm\<close> otherwise, where \<open>H < 24\<close>,
  \<open>M < 60\<close> and \<open>D\<close> days, \<open>H\<close> hours, \<open>M\<close> minutes are the uptime up to less than a
  minute. If \<^verbatim>\<open>psutil.boot_time()\<close> or \<^verbatim>\<open>time.time()\<close> raises, it returns the message
  \<^verbatim>\<open>Unknown\<close>.
\<close>

theorem get_uptime_format:
  "(boot \<le> now \<longrightarrow>
      (\<exists>D H M. H < 24 \<and> M < 60 \<and>
         real (86400 * D + 3600 * H + 60 * M) \<le> now - boot \<and>
         now - boot < real (86400 * D + 3600 * H + 60 * M + 60) \<and>
         get_uptime tr (Inr boot) (Inr now) =
           (if 1 \<le> D then str_nat D @ ''d '' @ str_nat H @ ''h '' @ str_nat M @ ''m''
            else if 1 \<le> H then str_nat H @ ''h '' @ str_nat M @ ''m''
            else str_nat M @ ''m''))) \<and>
   get_uptime tr (Inl e) t = tr ''Unknown'' \<and>
   get_uptime tr b (Inl e) = tr ''Unknown''"
proof (intro conjI impI)
  assume le: "boot \<le> now"
  define s where "s = \<lfloor>now - boot\<rfloor>"
  define d where "d = s div 86400"
  define h where "h = (s mod 86400) div 3600"
  define m where "m = (s mod 3600) div 60"
  from le have s0: "0 \<le> s" by (simp add: s_def)
  then have d0: "0 \<le> d" by (simp add: d_def pos_imp_zdiv_nonneg_iff)
  have h0: "0 \<le> h" by (simp add: h_def pos_imp_zdiv_nonneg_iff)
  have m0: "0 \<le> m" by (simp add: m_def pos_imp_zdiv_nonneg_iff)
  have h24: "h < 24"
  proof -
    have "s mod 86400 < 86400" by simp
    then have "s mod 86400 \<le> 86399" by linarith
    then have "(s mod 86400) div 3600 \<le> 86399 div 3600" by (rule zdiv_mono1) simp
    then show ?thesis by (simp add: h_def)
  qed
  have m60: "m < 60"
  proof -
    have "s mod 3600 < 3600" by simp
    then have "s mod 3600 \<le> 3599" by linarith
    then have "(s mod 3600) div 60 \<le> 3599 div 60" by (rule zdiv_mono1) simp
    then show ?thesis by (simp add: m_def)
  qed
  have split: "s = 86400 * d + 3600 * h + 60 * m + s mod 60"
    unfolding d_def h_def m_def by (rule seconds_split)
  have r0: "0 \<le> s mod 60" and r60: "s mod 60 < 60" by simp_all
  have total: "int (86400 * nat d + 3600 * nat h + 60 * nat m) = 86400 * d + 3600 * h + 60 * m"
    using d0 h0 m0 by simp
  have lo: "real (86400 * nat d + 3600 * nat h + 60 * nat m) \<le> now - boot"
  proof -
    have "86400 * d + 3600 * h + 60 * m \<le> s" using split r0 by linarith
    then have "real_of_int (86400 * d + 3600 * h + 60 * m) \<le> real_of_int s" by simp
    also have "real_of_int s \<le> now - boot" by (simp add: s_def)
    finally show ?thesis using total by (metis of_int_of_nat_eq)
  qed
  have hi: "now - boot < real (86400 * nat d + 3600 * nat h + 60 * nat m + 60)"
  proof -
    have "now - boot < real_of_int (s + 1)" by (simp add: s_def)
    also have "s + 1 \<le> 86400 * d + 3600 * h + 60 * m + 60" using split r60 by linarith
    then have "real_of_int (s + 1) \<le> real_of_int (86400 * d + 3600 * h + 60 * m + 60)"
      by (simp only: of_int_le_iff)
    also have "86400 * d + 3600 * h + 60 * m + 60 = int (86400 * nat d + 3600 * nat h + 60 * nat m + 60)"
      using total by simp
    finally show ?thesis by (simp only: of_int_of_nat_eq)
  qed
  have fmt: "get_uptime tr (Inr boot) (Inr now) =
           (if 1 \<le> nat d then str_nat (nat d) @ ''d '' @ str_nat (nat h) @ ''h '' @ str_nat (nat m) @ ''m''
            else if 1 \<le> nat h then str_nat (nat h) @ ''h '' @ str_nat (nat m) @ ''m''
            else str_nat (nat m) @ ''m'')"
  proof -
    have "(1 \<le> nat d) = (0 < d)" and "(1 \<le> nat h) = (0 < h)" by linarith+
    with d0 h0 m0 show ?thesis
      by (simp only: get_uptime_by_seconds Let_def s_def [symmetric] d_def [symmetric]
            h_def [symmetric] m_def [symmetric] str_int_nonneg)
  qed
  from h24 m60 h0 m0 have "nat h < 24" "nat m < 60" by simp_all
  with lo hi fmt
  show "\<exists>D H M. H < 24 \<and> M < 60 \<and>
         real (86400 * D + 3600 * H + 60 * M) \<le> now - boot \<and>
         now - boot < real (86400 * D + 3600 * H + 60 * M + 60) \<and>
         get_uptime tr (Inr boot) (Inr now) =
           (if 1 \<le> D then str_nat D @ ''d '' @ str_nat H @ ''h '' @ str_nat M @ ''m''
            else if 1 \<le> H then str_nat H @ ''h '' @ str_nat M @ ''m''
            else str_nat M @ ''m'')"
    by blast
next
  show "get_uptime tr (Inl e) t = tr ''Unknown''"
    by (simp add: get_uptime_def)
next
  show "get_uptime tr b (Inl e) = tr ''Unknown''"
    by (cases b) (simp_all add: get_uptime_def)
qed

lemma format_bytes_loop_unit:
  "k < length units \<Longrightarrow> v / 1024 ^ k < 1024 \<Longrightarrow> (\<forall>j<k. \<not> v / 1024 ^ j < 1024) \<Longrightarrow>
   format_bytes_loop v units = format_1f (v / 1024 ^ k) @ '' '' @ units ! k"
proof (induction units arbitrary: v k)
  case Nil
  then show ?case by simp
next
  case (Cons u us)
  show ?case
  proof (cases k)
    case 0
    with Cons.prems show ?thesis by simp
  next
    case (Suc k')
    with Cons.prems(3) have big: "\<not> v < 1024" by force
    have "format_bytes_loop (v / 1024) us = format_1f (v / 1024 / 1024 ^ k') @ '' '' @ us ! k'"
    proof (rule Cons.IH)
      show "k' < length us" using Cons.prems(1) Suc by simp
      show "v / 1024 / 1024 ^ k' < 1024" using Cons.prems(2) Suc by simp
      show "\<forall>j<k'. \<not> v / 1024 / 1024 ^ j < 1024"
      proof (intro allI impI)
        fix j assume "j < k'"
        then have "Suc j < k" using Suc by simp
        with Cons.prems(3) have "\<not> v / 1024 ^ Suc j < 1024" by blast
        then show "\<not> v / 1024 / 1024 ^ j < 1024" by simp
      qed
    qed
    with big Suc show ?thesis by simp
  qed
qed

lemma format_bytes_loop_PB:
  "(\<forall>j<length units. \<not> v / 1024 ^ j < 1024) \<Longrightarrow>
   format_bytes_loop v units = format_1f (v / 1024 ^ length units) @ '' PB''"
proof (induction units arbitrary: v)
  case Nil
  show ?case by simp
next
  case (Cons u us)
  from Cons.prems have big: "\<not> v < 1024" by force
  have "format_bytes_loop (v / 1024) us = format_1f (v / 1024 / 1024 ^ length us) @ '' PB''"
  proof (rule Cons.IH, intro allI impI)
    fix j assume "j < length us"
    then have "Suc j < length (u # us)" by simp
    with Cons.prems have "\<not> v / 1024 ^ Suc j < 1024" by blast
    then show "\<not> v / 1024 / 1024 ^ j < 1024" by simp
  qed
  with big show ?case by simp
qed

lemma round_half_even_le: "x < real_of_int n \<Longrightarrow> round_half_even x \<le> n"
proof -
  assume "x < real_of_int n"
  then have "\<lfloor>x\<rfloor> < n" by (simp add: floor_less_iff)
  then show ?thesis by (simp add: round_half_even_def Let_def)
qed

lemma PB_all_big:
  assumes "(1024::real) ^ 5 \<le> v" and "j < 5"
  shows "\<not> v / 1024 ^ j < 1024"
proof -
  have "(1024::real) * 1024 ^ j = 1024 ^ Suc j" by simp
  also have "\<dots> \<le> 1024 ^ 5" using assms(2) by (intro power_increasing) simp_all
  finally have "1024 * 1024 ^ j \<le> v" using assms(1) by simp
  then have "1024 \<le> v / 1024 ^ j" by (simp add: pos_le_divide_eq)
  then show ?thesis by simp
qed

text \<open>
  C3, as amended. For every byte count \<open>b\<close> below \<open>2 ^ 53\<close>, \<^verbatim>\<open>format_bytes(b)\<close> is
  \<open>b / 1024 ^ k\<close> printed with one decimal, a blank and a unit, where the unit is the
  first of B, KB, MB, GB, TB for which \<open>b / 1024 ^ k < 1024\<close>, and PB with \<open>k = 5\<close>
  when \<open>b \<ge> 1024 ^ 5\<close>. For every unit other than PB the quotient is below 1024, and
  the printed number, being the quotient rounded to one decimal, is at most 1024.0.
\<close>

theorem format_bytes_units:
  assumes "b < 2 ^ 53"
  shows
    "(k < 5 \<and> real b / 1024 ^ k < 1024 \<and> (\<forall>j<k. \<not> real b / 1024 ^ j < 1024) \<longrightarrow>
        format_bytes (real b) =
          format_1f (real b / 1024 ^ k) @ '' '' @ [''B'', ''KB'', ''MB'', ''GB'', ''TB''] ! k \<and>
        round_half_even (real b / 1024 ^ k * 10) \<le> 10240) \<and>
     (1024 ^ 5 \<le> b \<longrightarrow>
        format_bytes (real b) = format_1f (real b / 1024 ^ 5) @ '' PB'')"
proof (intro conjI impI)
  assume h: "k < 5 \<and> real b / 1024 ^ k < 1024 \<and> (\<forall>j<k. \<not> real b / 1024 ^ j < 1024)"
  then show "format_bytes (real b) =
          format_1f (real b / 1024 ^ k) @ '' '' @ [''B'', ''KB'', ''MB'', ''GB'', ''TB''] ! k"
    unfolding format_bytes_def by (intro format_bytes_loop_unit) simp_all
  from h have "real b / 1024 ^ k < 1024" by blast
  then have "real b / 1024 ^ k * 10 < 1024 * 10" by (simp only: mult_less_cancel_right_pos zero_less_numeral)
  then have "real b / 1024 ^ k * 10 < real_of_int 10240" by simp
  then show "round_half_even (real b / 1024 ^ k * 10) \<le> 10240"
    by (rule round_half_even_le)
next
  assume "1024 ^ 5 \<le> b"
  then have "(1024::real) ^ 5 \<le> real b"
    by (metis of_nat_le_iff of_nat_numeral of_nat_power)
  then have "\<forall>j<length [''B'', ''KB'', ''MB'', ''GB'', ''TB'']. \<not> real b / 1024 ^ j < 1024"
    using PB_all_big by simp
  then have "format_bytes_loop (real b) [''B'', ''KB'', ''MB'', ''GB'', ''TB''] =
      format_1f (real b / 1024 ^ length [''B'', ''KB'', ''MB'', ''GB'', ''TB'']) @ '' PB''"
    by (rule format_bytes_loop_PB)
  then show "format_bytes (real b) = format_1f (real b / 1024 ^ 5) @ '' PB''"
    by (simp add: format_bytes_def)
qed

text \<open>
  The claim as stated also has the printed number below 1024.0 for every unit other
  than PB. At \<open>b = 1048575\<close> the quotient \<open>1023.999...\<close> is below 1024 and the unit is
  KB, but the number printed is \<^verbatim>\<open>1024.0\<close>.
\<close>

theorem format_bytes_rounds_up_to_1024_counterexample:
  "format_bytes (real 1048575) = ''1024.0 KB'' \<and>
   real 1048575 / 1024 ^ 1 < 1024 \<and>
   \<not> round_half_even (real 1048575 / 1024 ^ 1 * 10) < 10240"
  by (simp add: format_bytes_def format_1f_def round_half_even_def Let_def str_nat.simps digit_char_def)

theorem format_bytes_units_witness:
  "(1610612736::nat) < 2 ^ 53 \<and> (3::nat) < 5 \<and>
   real 1610612736 / 1024 ^ 3 < 1024 \<and>
   \<not> real 1610612736 / 1024 ^ 0 < 1024 \<and>
   \<not> real 1610612736 / 1024 ^ 1 < 1024 \<and>
   \<not> real 1610612736 / 1024 ^ 2 < 1024 \<and>
   format_bytes (real 1610612736) = ''1.5 GB'' \<and>
   round_half_even (real 1610612736 / 1024 ^ 3 * 10) \<le> 10240 \<and>
   (3377699720527872::nat) < 2 ^ 53 \<and> (1024::nat) ^ 5 \<le> 3377699720527872 \<and>
   format_bytes (real 3377699720527872) = ''3.0 PB''"
proof -
  have b1: "(1610612736::nat) < 2 ^ 53" by simp
  have b2: "(3377699720527872::nat) < 2 ^ 53" by simp
  have q: "\<forall>j<3. \<not> real 1610612736 / 1024 ^ j < 1024"
  proof (intro allI impI)
    fix j :: nat
    assume "j < 3"
    then consider "j = 0" | "j = 1" | "j = 2" by linarith
    then show "\<not> real 1610612736 / 1024 ^ j < 1024" by cases simp_all
  qed
  have f1: "format_1f (real 1610612736 / 1024 ^ 3) = ''1.5''"
    by (simp add: format_1f_def round_half_even_def Let_def str_nat.simps digit_char_def)
  have f2: "format_1f (real 3377699720527872 / 1024 ^ 5) = ''3.0''"
    by (simp add: format_1f_def round_half_even_def Let_def str_nat.simps digit_char_def)
  from format_bytes_units [OF b1, where k = 3] q f1
  have 1: "format_bytes (real 1610612736) = ''1.5 GB'' \<and>
      round_half_even (real 1610612736 / 1024 ^ 3 * 10) \<le> 10240"
    by simp
  from format_bytes_units [OF b2, where k = 0] f2
  have 2: "format_bytes (real 3377699720527872) = ''3.0 PB''"
    by simp
  from 1 2 show ?thesis by simp
qed

theorem get_uptime_format_witness:
  "(1000::real) \<le> 200000.5 \<and>
   (\<exists>D H M. H < 24 \<and> M < 60 \<and>
      real (86400 * D + 3600 * H + 60 * M) \<le> 200000.5 - 1000 \<and>
      200000.5 - 1000 < real (86400 * D + 3600 * H + 60 * M + 60) \<and>
      get_uptime (\<lambda>s. s) (Inr 1000) (Inr 200000.5) =
        (if 1 \<le> D then str_nat D @ ''d '' @ str_nat H @ ''h '' @ str_nat M @ ''m''
         else if 1 \<le> H then str_nat H @ ''h '' @ str_nat M @ ''m''
         else str_nat M @ ''m'')) \<and>
   get_uptime (\<lambda>s. s) (Inr 1000) (Inr 200000.5) = ''2d 7h 16m'' \<and>
   get_uptime (\<lambda>s. s) (Inl (OtherException ''boot time unavailable'')) (Inr 200000.5) = ''Unknown''"
proof -
  note t = get_uptime_format [where boot = 1000 and now = "200000.5" and tr = "\<lambda>s. s"
      and e = "OtherException ''boot time unavailable''" and t = "Inr 200000.5" and b = "Inr 1000"]
  have v: "get_uptime (\<lambda>s. s) (Inr 1000) (Inr 200000.5) = ''2d 7h 16m''"
    by (simp add: get_uptime_def floordiv_def fmod_def Let_def str_int_def str_nat.simps digit_char_def)
  from t v show ?thesis by simp
qed

lemma wm_scan_find:
  "wm_scan table out = map_option snd (find (\<lambda>entry. contains out (fst entry)) table)"
  by (induction table out rule: wm_scan.induct) simp_all

lemma contains_char: "contains s [c] \<longleftrightarrow> c \<in> set s"
  by (induction s) (auto simp: startswith_def)

lemma contains_subset: "contains s p \<Longrightarrow> set p \<subseteq> set s"
proof (induction s)
  case Nil
  then show ?case by simp
next
  case (Cons c cs)
  show ?case
  proof (cases "startswith (c # cs) p")
    case True
    then have "p = take (length p) (c # cs)" by (simp add: startswith_def)
    then have "set p \<subseteq> set (c # cs)" by (metis set_take_subset)
    then show ?thesis .
  next
    case False
    with Cons show ?thesis by auto
  qed
qed

lemma split_ws_from_not_Nil:
  "word \<noteq> [] \<or> (\<exists>c\<in>set s. \<not> is_space c) \<Longrightarrow> split_ws_from word s \<noteq> []"
  by (induction s arbitrary: word) auto

lemma window_id_not_space: "\<not> is_space CHR ''w''"
  by (simp add: is_space_def)

lemma split_ws_window_id: "contains s ''window id'' \<Longrightarrow> split_ws s \<noteq> []"
proof -
  assume "contains s ''window id''"
  then have "set ''window id'' \<subseteq> set s" by (rule contains_subset)
  then have "CHR ''w'' \<in> set s" by simp
  with window_id_not_space have "\<exists>c\<in>set s. \<not> is_space c" by blast
  then show ?thesis by (simp add: split_ws_def split_ws_from_not_Nil)
qed

lemma ps_detect_caught:
  "\<not> raises_uncaught (run [''ps'', ''aux'']) \<Longrightarrow>
   ps_detect run = ([[''ps'', ''aux'']], Inr (ps_name run))"
  by (cases "run [''ps'', ''aux'']")
     (simp_all add: ps_detect_def ps_name_def raises_uncaught_def wm_scan_find)

lemma ps_detect_uncaught:
  "raises_uncaught (run [''ps'', ''aux'']) \<Longrightarrow>
   \<exists>e. ps_detect run = ([[''ps'', ''aux'']], Inl e) \<and> \<not> caught e"
  by (cases "run [''ps'', ''aux'']") (simp_all add: ps_detect_def raises_uncaught_def)

lemma x11_detect_caught:
  assumes "\<forall>cmd\<in>set (fst (x11_detect env run)). \<not> raises_uncaught (run cmd)"
  shows "snd (x11_detect env run) = Inr (xprop_result env run)"
proof (cases "environ_get env ''DISPLAY'' [] = []")
  case True
  then show ?thesis
    by (auto simp: x11_detect_def xprop_result_def xprop_name_def environ_get_def
          split: option.splits)
next
  case False
  then obtain display where d: "env ''DISPLAY'' = Some display" "display \<noteq> []"
    by (auto simp: environ_get_def split: option.splits)
  show ?thesis
  proof (cases "run xprop_root")
    case (Raises e)
    with False assms have "caught e"
      by (simp add: x11_detect_def raises_uncaught_def)
    with Raises False d show ?thesis
      by (simp add: x11_detect_def xprop_result_def xprop_name_def xprop_root_def)
  next
    case (Completed rc out)
    show ?thesis
    proof (cases "rc = 0 \<and> contains out ''window id''")
      case no: False
      with Completed False d show ?thesis
        by (auto simp: x11_detect_def xprop_result_def xprop_name_def xprop_root_def)
    next
      case ok: True
      then have ne: "split_ws out \<noteq> []" by (simp add: split_ws_window_id)
      define wm_id where "wm_id = last (split_ws out)"
      from ne have li: "last_item (split_ws out) = Inr wm_id"
        by (simp add: last_item_def wm_id_def)
      show ?thesis
      proof (cases "run (xprop_id wm_id)")
        case r2: (Raises e)
        with False Completed ok li assms have "caught e"
          by (simp add: x11_detect_def raises_uncaught_def)
        with r2 False Completed ok li d show ?thesis
          by (simp add: x11_detect_def xprop_result_def xprop_name_def xprop_root_def
                xprop_id_def wm_id_def)
      next
        case c2: (Completed rc2 out2)
        show ?thesis
        proof (cases "rc2 = 0 \<and> CHR ''='' \<in> set out2")
          case False
          with c2 Completed ok li d \<open>environ_get env ''DISPLAY'' [] \<noteq> []\<close> show ?thesis
            by (auto simp: x11_detect_def xprop_result_def xprop_name_def xprop_root_def
                  xprop_id_def wm_id_def contains_char)
        next
          case True
          then have f: "index1 (split_on CHR ''='' out2) =
              Inr (takeWhile (\<lambda>c. c \<noteq> CHR ''='') (tl (dropWhile (\<lambda>c. c \<noteq> CHR ''='') out2)))"
            by (simp add: index1_split)
          from True c2 Completed ok li d \<open>environ_get env ''DISPLAY'' [] \<noteq> []\<close> show ?thesis
            by (simp add: x11_detect_def xprop_result_def xprop_name_def xprop_root_def
                  xprop_id_def wm_id_def contains_char f Let_def)
        qed
      qed
    qed
  qed
qed

lemma x11_detect_uncaught:
  assumes "\<exists>cmd\<in>set (fst (x11_detect env run)). raises_uncaught (run cmd)"
  shows "\<exists>e. snd (x11_detect env run) = Inl e"
proof (cases "environ_get env ''DISPLAY'' [] = []")
  case True
  with assms show ?thesis by (simp add: x11_detect_def)
next
  case False
  show ?thesis
  proof (cases "run xprop_root")
    case (Raises e)
    with False assms show ?thesis
      by (auto simp: x11_detect_def raises_uncaught_def)
  next
    case (Completed rc out)
    then have c1: "\<not> raises_uncaught (run xprop_root)" by (simp add: raises_uncaught_def)
    show ?thesis
    proof (cases "rc = 0 \<and> contains out ''window id''")
      case no: False
      with Completed False assms c1 show ?thesis
        by (auto simp: x11_detect_def)
    next
      case ok: True
      then have ne: "split_ws out \<noteq> []" by (simp add: split_ws_window_id)
      define wm_id where "wm_id = last (split_ws out)"
      from ne have li: "last_item (split_ws out) = Inr wm_id"
        by (simp add: last_item_def wm_id_def)
      show ?thesis
      proof (cases "run (xprop_id wm_id)")
        case r2: (Raises e)
        with False Completed ok li assms c1 show ?thesis
          by (auto simp: x11_detect_def raises_uncaught_def)
      next
        case c2: (Completed rc2 out2)
        then have n2: "\<not> raises_uncaught (run (xprop_id wm_id))" by (simp add: raises_uncaught_def)
        have "fst (x11_detect env run) = [xprop_root, xprop_id wm_id]"
          using False Completed ok li c2
          by (simp add: x11_detect_def Let_def split: sum.splits)
        with assms c1 n2 show ?thesis by simp
      qed
    qed
  qed
qed

text \<open>
  C2, as amended. \<^verbatim>\<open>get_window_manager\<close> returns the base name of \<^verbatim>\<open>WINDOW_MANAGER\<close>
  whenever that variable is set non-empty, without running any command. Otherwise, as
  long as no command it runs raises an exception other than \<^verbatim>\<open>SubprocessError\<close> or
  \<^verbatim>\<open>FileNotFoundError\<close>: when \<^verbatim>\<open>ps aux\<close> succeeds it returns the display name of the
  first key of the table, in the table's order, that occurs in the output; otherwise,
  when \<^verbatim>\<open>DISPLAY\<close> is set and the two \<^verbatim>\<open>xprop\<close> queries succeed, the name they report
  unless it is \<^verbatim>\<open>gnome shell\<close> case-insensitively; and in every remaining case the message
  \<^verbatim>\<open>Unknown\<close>. An exception of another kind raised by a command is not caught: the
  function raises it instead of returning.
\<close>

theorem get_window_manager_detection:
  "(environ_get env ''WINDOW_MANAGER'' [] \<noteq> [] \<longrightarrow>
      get_window_manager tr env run = ([], Inr (basename (environ_get env ''WINDOW_MANAGER'' [])))) \<and>
   ((\<forall>cmd\<in>set (fst (get_window_manager tr env run)). \<not> raises_uncaught (run cmd)) \<longrightarrow>
      snd (get_window_manager tr env run) = Inr (get_window_manager_spec tr env run)) \<and>
   ((\<exists>cmd\<in>set (fst (get_window_manager tr env run)). raises_uncaught (run cmd)) \<longrightarrow>
      (\<exists>e. snd (get_window_manager tr env run) = Inl e))"
proof (cases "environ_get env ''WINDOW_MANAGER'' [] = []")
  case False
  then obtain c cs where "env ''WINDOW_MANAGER'' = Some (c # cs)"
    by (cases "env ''WINDOW_MANAGER''"; cases "the (env ''WINDOW_MANAGER'')")
       (simp_all add: environ_get_def)
  then show ?thesis
    by (simp add: get_window_manager_def get_window_manager_spec_def environ_get_def)
next
  case True
  then have spec: "get_window_manager_spec tr env run =
      (case ps_name run of
         Some name \<Rightarrow> name
       | None \<Rightarrow> (case xprop_result env run of Some name \<Rightarrow> name | None \<Rightarrow> tr ''Unknown''))"
    by (auto simp: get_window_manager_spec_def environ_get_def xprop_result_def
          split: option.splits list.splits)
  show ?thesis
  proof (cases "raises_uncaught (run [''ps'', ''aux''])")
    case unc: True
    then obtain e where "ps_detect run = ([[''ps'', ''aux'']], Inl e)"
      using ps_detect_uncaught by blast
    with True unc show ?thesis
      by (simp add: get_window_manager_def)
  next
    case ok: False
    then have ps: "ps_detect run = ([[''ps'', ''aux'']], Inr (ps_name run))"
      by (rule ps_detect_caught)
    show ?thesis
    proof (cases "ps_name run")
      case (Some name)
      with True ok ps spec show ?thesis
        by (simp add: get_window_manager_def)
    next
      case None
      obtain cmds2 r2 where x: "x11_detect env run = (cmds2, r2)" by (cases "x11_detect env run")
      have g: "get_window_manager tr env run =
          ([''ps'', ''aux''] # cmds2,
           case r2 of Inl e \<Rightarrow> Inl e | Inr (Some n) \<Rightarrow> Inr n | Inr None \<Rightarrow> Inr (tr ''Unknown''))"
        using True ps None x
        by (simp add: get_window_manager_def split: sum.splits option.splits)
      have caught_case: "snd (get_window_manager tr env run) = Inr (get_window_manager_spec tr env run)"
        if "\<forall>cmd\<in>set (fst (get_window_manager tr env run)). \<not> raises_uncaught (run cmd)"
      proof -
        from that g x have "\<forall>cmd\<in>set (fst (x11_detect env run)). \<not> raises_uncaught (run cmd)"
          by simp
        then have "snd (x11_detect env run) = Inr (xprop_result env run)"
          by (rule x11_detect_caught)
        with x have "r2 = Inr (xprop_result env run)" by simp
        with g spec None show ?thesis by (simp split: option.splits)
      qed
      have uncaught_case: "\<exists>e. snd (get_window_manager tr env run) = Inl e"
        if "\<exists>cmd\<in>set (fst (get_window_manager tr env run)). raises_uncaught (run cmd)"
      proof -
        from that g x ok have "\<exists>cmd\<in>set (fst (x11_detect env run)). raises_uncaught (run cmd)"
          by auto
        then obtain e where "snd (x11_detect env run) = Inl e"
          using x11_detect_uncaught by blast
        with x g show ?thesis by simp
      qed
      from True caught_case uncaught_case show ?thesis by blast
    qed
  qed
qed

text \<open>
  The claim as stated has \<^verbatim>\<open>Unknown\<close> returned in every remaining case. Where \<^verbatim>\<open>ps\<close>
  cannot be executed for lack of permission, \<^verbatim>\<open>subprocess.run\<close> raises a
  \<^verbatim>\<open>PermissionError\<close>, which the handler does not list, and the function raises.
\<close>

theorem get_window_manager_uncaught_counterexample:
  "snd (get_window_manager (\<lambda>s. s) Map.empty (\<lambda>argv. Raises (OtherException ''Permission denied'')))
     = Inl (OtherException ''Permission denied'') \<and>
   get_window_manager_spec (\<lambda>s. s) Map.empty (\<lambda>argv. Raises (OtherException ''Permission denied''))
     = ''Unknown''"
  by (simp add: get_window_manager_def get_window_manager_spec_def ps_detect_def
        ps_name_def xprop_name_def environ_get_def)

theorem get_window_manager_detection_witness:
  "environ_get [''WINDOW_MANAGER'' \<mapsto> ''/usr/bin/icewm''] ''WINDOW_MANAGER'' [] \<noteq> [] \<and>
   get_window_manager (\<lambda>s. s) [''WINDOW_MANAGER'' \<mapsto> ''/usr/bin/icewm'']
     (\<lambda>argv. Raises TimeoutExpired) = ([], Inr ''icewm'') \<and>
   fst (get_window_manager (\<lambda>s. s) Map.empty
     (\<lambda>argv. Completed 0 ''root 812 /usr/bin/kwin_wayland'')) = [[''ps'', ''aux'']] \<and>
   \<not> raises_uncaught (Completed 0 ''root 812 /usr/bin/kwin_wayland'') \<and>
   snd (get_window_manager (\<lambda>s. s) Map.empty
     (\<lambda>argv. Completed 0 ''root 812 /usr/bin/kwin_wayland'')) = Inr ''KWin'' \<and>
   fst (get_window_manager (\<lambda>s. s) Map.empty (\<lambda>argv. Raises FileNotFoundError))
     = [[''ps'', ''aux'']] \<and>
   \<not> raises_uncaught (Raises FileNotFoundError) \<and>
   snd (get_window_manager (\<lambda>s. s) Map.empty (\<lambda>argv. Raises FileNotFoundError))
     = Inr ''Unknown'' \<and>
   fst (get_window_manager (\<lambda>s. s) Map.empty
     (\<lambda>argv. Raises (OtherException ''Permission denied''))) = [[''ps'', ''aux'']] \<and>
   raises_uncaught (Raises (OtherException ''Permission denied'')) \<and>
   snd (get_window_manager (\<lambda>s. s) Map.empty
     (\<lambda>argv. Raises (OtherException ''Permission denied'')))
     = Inl (OtherException ''Permission denied'')"
proof -
  let ?e1 = "[''WINDOW_MANAGER'' \<mapsto> ''/usr/bin/icewm'']"
  let ?r2 = "\<lambda>argv::string list. Completed 0 ''root 812 /usr/bin/kwin_wayland''"
  let ?r3 = "\<lambda>argv::string list. Raises FileNotFoundError"
  let ?r4 = "\<lambda>argv::string list. Raises (OtherException ''Permission denied'')"
  have a: "environ_get ?e1 ''WINDOW_MANAGER'' [] \<noteq> []"
    by (simp add: environ_get_def)
  have 1: "get_window_manager (\<lambda>s. s) ?e1 (\<lambda>argv. Raises TimeoutExpired) = ([], Inr ''icewm'')"
    using get_window_manager_detection [where env = ?e1 and tr = "\<lambda>s. s"
        and run = "\<lambda>argv. Raises TimeoutExpired"] a
    by (simp add: environ_get_def basename_def)
  have t2: "fst (get_window_manager (\<lambda>s. s) Map.empty ?r2) = [[''ps'', ''aux'']]"
    by (simp add: get_window_manager_def environ_get_def ps_detect_def wm_mapping_def
          startswith_def)
  have s2: "get_window_manager_spec (\<lambda>s. s) Map.empty ?r2 = ''KWin''"
    by (simp add: get_window_manager_spec_def ps_name_def wm_mapping_def startswith_def)
  have 2: "snd (get_window_manager (\<lambda>s. s) Map.empty ?r2) = Inr ''KWin''"
    using get_window_manager_detection [where env = Map.empty and tr = "\<lambda>s. s" and run = ?r2] t2 s2
    by (simp add: raises_uncaught_def)
  have t3: "fst (get_window_manager (\<lambda>s. s) Map.empty ?r3) = [[''ps'', ''aux'']]"
    by (simp add: get_window_manager_def environ_get_def ps_detect_def x11_detect_def)
  have s3: "get_window_manager_spec (\<lambda>s. s) Map.empty ?r3 = ''Unknown''"
    by (simp add: get_window_manager_spec_def ps_name_def xprop_name_def)
  have 3: "snd (get_window_manager (\<lambda>s. s) Map.empty ?r3) = Inr ''Unknown''"
    using get_window_manager_detection [where env = Map.empty and tr = "\<lambda>s. s" and run = ?r3] t3 s3
    by (simp add: raises_uncaught_def)
  have t4: "fst (get_window_manager (\<lambda>s. s) Map.empty ?r4) = [[''ps'', ''aux'']]"
    by (simp add: get_window_manager_def environ_get_def ps_detect_def)
  have "\<exists>e. snd (get_window_manager (\<lambda>s. s) Map.empty ?r4) = Inl e"
    using get_window_manager_detection [where env = Map.empty and tr = "\<lambda>s. s" and run = ?r4] t4
    by (simp add: raises_uncaught_def)
  then have 4: "snd (get_window_manager (\<lambda>s. s) Map.empty ?r4) = Inl (OtherException ''Permission denied'')"
    by (simp add: get_window_manager_def environ_get_def ps_detect_def)
  from a 1 t2 2 t3 3 t4 4 show ?thesis
    by (simp add: raises_uncaught_def)
qed

lemma get_window_manager_xprop_example:
  "get_window_manager (\<lambda>s. s) [''DISPLAY'' \<mapsto> '':0'']
     (\<lambda>argv. if argv = [''ps'', ''aux''] then Completed 0 ''root 1 /sbin/init''
             else if argv = [''xprop'', ''-root'', ''_NET_SUPPORTING_WM_CHECK'']
             then Completed 0 ''_NET_SUPPORTING_WM_CHECK(WINDOW): window id # 0x1200003''
             else if argv = [''xprop'', ''-id'', ''0x1200003'', ''_NET_WM_NAME'']
             then Completed 0 (''_NET_WM_NAME(UTF8_STRING) = '' @ [CHR 0x22] @ ''IceWM 3.4'' @ [CHR 0x22, CHR 0x0A])
             else Raises FileNotFoundError)
   = ([[''ps'', ''aux''], [''xprop'', ''-root'', ''_NET_SUPPORTING_WM_CHECK''],
       [''xprop'', ''-id'', ''0x1200003'', ''_NET_WM_NAME'']], Inr ''IceWM 3.4'')"
  by (simp add: get_window_manager_def environ_get_def ps_detect_def wm_mapping_def
        startswith_def x11_detect_def xprop_root_def xprop_id_def split_ws_def is_space_def
        last_item_def index1_def strip_def strip_chars_def lower_def lower_ch_def Let_def)



lemma try_load_failure_error_row:
  assumes "snd (try_load tr h) = Some e"
  shows "last (load_info tr h) = (tr ''Error'', tr ''Failed to load system information'', ''dialog-error'')"
  using assms by (cases "try_load tr h") (simp add: load_info_def)






end
